theory Spec2Isabelle
  imports Main
begin

section \<open>Values, request data and stored documents\<close>

text \<open>
  The three servers (\<^verbatim>\<open>src/src/app.js\<close> lines 1-188, called variant 1; lines 190-425,
  variant 2; \<^verbatim>\<open>src/unnamed/part_000\<close>, variant 3) are request handlers over two MongoDB
  collections, \<^verbatim>\<open>participants\<close> and \<^verbatim>\<open>messages\<close>.

  A JavaScript value that reaches a handler through a JSON body is a scalar of \<open>jsval\<close>
  (objects and arrays as field values are outside this model, and numbers are the
  integers). A property that is absent reads as \<open>JUndefined\<close>.
\<close>

datatype jsval = JUndefined | JNull | JBool bool | JNum int | JStr string

type_synonym jsobj = "(string \<times> jsval) list"

text \<open>\<^verbatim>\<open>obj.key\<close>, also what the destructuring \<^verbatim>\<open>const { key } = obj\<close> reads.\<close>

definition property :: "jsobj \<Rightarrow> string \<Rightarrow> jsval" where
  "property obj k = (case map_of obj k of None \<Rightarrow> JUndefined | Some v \<Rightarrow> v)"

text \<open>A request header is a string or absent: \<^verbatim>\<open>const { user } = req.headers\<close>.\<close>

definition hdr :: "string option \<Rightarrow> jsval" where
  "hdr h = (case h of None \<Rightarrow> JUndefined | Some s \<Rightarrow> JStr s)"

text \<open>\<^verbatim>\<open>!v\<close>: the falsy values of JavaScript.\<close>

fun falsy :: "jsval \<Rightarrow> bool" where
  "falsy JUndefined = True"
| "falsy JNull = True"
| "falsy (JBool b) = (\<not> b)"
| "falsy (JNum n) = (n = 0)"
| "falsy (JStr s) = (s = [])"

text \<open>\<^verbatim>\<open>typeof v !== "string"\<close>.\<close>

fun not_string :: "jsval \<Rightarrow> bool" where
  "not_string (JStr s) = False"
| "not_string v = True"

text \<open>
  The driver writes an \<^verbatim>\<open>undefined\<close> field value as BSON null (its default,
  \<^verbatim>\<open>ignoreUndefined: false\<close>), in documents and in query filters alike.
\<close>

fun bson :: "jsval \<Rightarrow> jsval" where
  "bson JUndefined = JNull"
| "bson v = v"

text \<open>
  \<^verbatim>\<open>Number(req.query.limit)\<close>: not-a-number, or a number. The numbers of the model are
  the integers; what the driver does with a fractional or infinite limit is not modelled.
\<close>

datatype jsnum = NaN | Num int

fun isNaN :: "jsnum \<Rightarrow> bool" where
  "isNaN NaN = True"
| "isNaN (Num n) = False"

text \<open>\<^verbatim>\<open>limit <= 0\<close>; every comparison with NaN is false.\<close>

fun le_zero :: "jsnum \<Rightarrow> bool" where
  "le_zero NaN = False"
| "le_zero (Num n) = (n \<le> 0)"

text \<open>
  The documents. A participant is \<^verbatim>\<open>{ name, lastStatus }\<close>; a message is
  \<^verbatim>\<open>{ from, to, text, type, time }\<close>, and \<open>extras\<close> holds any other field that an
  update with \<^verbatim>\<open>$set\<close> adds. A collection lists its documents in insertion order, each
  with the \<^verbatim>\<open>_id\<close> that the driver gave it.
\<close>

record participant =
  name :: jsval
  lastStatus :: int

record message =
  msg_from :: jsval
  msg_to :: jsval
  msg_text :: jsval
  msg_type :: jsval
  msg_time :: jsval
  extras :: jsobj

record db =
  participants :: "(nat \<times> participant) list"
  messages :: "(nat \<times> message) list"
  next_id :: nat

section \<open>The store: driver calls that may fail\<close>

text \<open>
  Every \<^verbatim>\<open>await db.collection(...)...\<close> may reject. The handlers are run against a list
  of pending outcomes, one entry per driver call in the order the calls are made
  (\<open>True\<close>: this call rejects); once the list is used up, calls succeed. A call that
  rejects leaves the store as it was.
\<close>

type_synonym faults = "bool list"

datatype 'a result = Done 'a faults db | Thrown db

type_synonym 'a action = "faults \<Rightarrow> db \<Rightarrow> 'a result"

definition ret :: "'a \<Rightarrow> 'a action" where
  "ret a = (\<lambda>fs d. Done a fs d)"

definition throw :: "'a action" where
  "throw = (\<lambda>fs d. Thrown d)"

definition bnd :: "'a action \<Rightarrow> ('a \<Rightarrow> 'b action) \<Rightarrow> 'b action" where
  "bnd m f = (\<lambda>fs d. case m fs d of Done a fs' d' \<Rightarrow> f a fs' d' | Thrown d' \<Rightarrow> Thrown d')"

definition await :: "(db \<Rightarrow> 'a \<times> db) \<Rightarrow> 'a action" where
  "await call = (\<lambda>fs d.
     case fs of
       [] \<Rightarrow> (case call d of (a, d') \<Rightarrow> Done a [] d')
     | f # fs' \<Rightarrow> if f then Thrown d else (case call d of (a, d') \<Rightarrow> Done a fs' d'))"

text \<open>\<^verbatim>\<open>try { ... } catch (err) { handler }\<close> around the body of a request handler.\<close>

definition try_catch :: "'a action \<Rightarrow> 'a \<Rightarrow> faults \<Rightarrow> db \<Rightarrow> 'a \<times> db" where
  "try_catch m handler = (\<lambda>fs d.
     case m fs d of Done a fs' d' \<Rightarrow> (a, d') | Thrown d' \<Rightarrow> (handler, d'))"

fun update_first :: "('a \<Rightarrow> bool) \<Rightarrow> ('a \<Rightarrow> 'a) \<Rightarrow> 'a list \<Rightarrow> 'a list" where
  "update_first P f [] = []"
| "update_first P f (x # xs) = (if P x then f x # xs else x # update_first P f xs)"

fun delete_first :: "('a \<Rightarrow> bool) \<Rightarrow> 'a list \<Rightarrow> 'a list" where
  "delete_first P [] = []"
| "delete_first P (x # xs) = (if P x then xs else x # delete_first P xs)"

text \<open>\<^verbatim>\<open>db.collection("participants").findOne({ name: v })\<close>\<close>

definition participants_findOne :: "jsval \<Rightarrow> (nat \<times> participant) option action" where
  "participants_findOne v =
     await (\<lambda>d. (find (\<lambda>p. name (snd p) = bson v) (participants d), d))"

text \<open>\<^verbatim>\<open>db.collection("participants").insertOne({ name, lastStatus })\<close>\<close>

definition participants_insertOne :: "jsval \<Rightarrow> int \<Rightarrow> unit action" where
  "participants_insertOne n t =
     await (\<lambda>d. ((), d\<lparr>participants := participants d
                          @ [(next_id d, \<lparr>name = bson n, lastStatus = t\<rparr>)],
                       next_id := Suc (next_id d)\<rparr>))"

text \<open>\<^verbatim>\<open>db.collection("participants").updateOne({ name: v }, { $set: { lastStatus: t } })\<close>\<close>

definition participants_updateOne :: "jsval \<Rightarrow> int \<Rightarrow> unit action" where
  "participants_updateOne v t =
     await (\<lambda>d. ((), d\<lparr>participants :=
                          update_first (\<lambda>p. name (snd p) = bson v)
                            (\<lambda>p. (fst p, (snd p)\<lparr>lastStatus := t\<rparr>)) (participants d)\<rparr>))"

text \<open>\<^verbatim>\<open>db.collection("participants").find({ lastStatus: { $lt: t } }).toArray()\<close>\<close>

definition participants_find_lt :: "int \<Rightarrow> (nat \<times> participant) list action" where
  "participants_find_lt t =
     await (\<lambda>d. (filter (\<lambda>p. lastStatus (snd p) < t) (participants d), d))"

text \<open>\<^verbatim>\<open>db.collection("participants").deleteOne({ _id: i })\<close>\<close>

definition participants_deleteOne :: "nat \<Rightarrow> unit action" where
  "participants_deleteOne i =
     await (\<lambda>d. ((), d\<lparr>participants := delete_first (\<lambda>p. fst p = i) (participants d)\<rparr>))"

definition bson_message :: "message \<Rightarrow> message" where
  "bson_message m =
     \<lparr>msg_from = bson (msg_from m), msg_to = bson (msg_to m), msg_text = bson (msg_text m),
      msg_type = bson (msg_type m), msg_time = bson (msg_time m), extras = extras m\<rparr>"

text \<open>\<^verbatim>\<open>db.collection("messages").insertOne(m)\<close>\<close>

definition messages_insertOne :: "message \<Rightarrow> unit action" where
  "messages_insertOne m =
     await (\<lambda>d. ((), d\<lparr>messages := messages d @ [(next_id d, bson_message m)],
                       next_id := Suc (next_id d)\<rparr>))"

text \<open>\<^verbatim>\<open>db.collection("messages").find(q).limit(n).toArray()\<close>, for a positive \<open>n\<close>.\<close>

definition messages_find_limit :: "(message \<Rightarrow> bool) \<Rightarrow> int \<Rightarrow> (nat \<times> message) list action" where
  "messages_find_limit q n =
     await (\<lambda>d. (take (nat n) (filter (\<lambda>m. q (snd m)) (messages d)), d))"

text \<open>\<^verbatim>\<open>db.collection("messages").findOne({ _id: i })\<close>\<close>

definition messages_findOne :: "nat \<Rightarrow> (nat \<times> message) option action" where
  "messages_findOne i = await (\<lambda>d. (find (\<lambda>m. fst m = i) (messages d), d))"

text \<open>
  \<^verbatim>\<open>{ $set: body }\<close> on one message: every field of the body is written, the five
  message fields in place and any other key among the extras. Where the list has a key
  twice, its first entry is the value of the property, as for \<open>property\<close>.
\<close>

fun set_field :: "string \<times> jsval \<Rightarrow> message \<Rightarrow> message" where
  "set_field (k, v) m =
     (if k = ''from'' then m\<lparr>msg_from := bson v\<rparr>
      else if k = ''to'' then m\<lparr>msg_to := bson v\<rparr>
      else if k = ''text'' then m\<lparr>msg_text := bson v\<rparr>
      else if k = ''type'' then m\<lparr>msg_type := bson v\<rparr>
      else if k = ''time'' then m\<lparr>msg_time := bson v\<rparr>
      else m\<lparr>extras := (k, bson v) # filter (\<lambda>e. fst e \<noteq> k) (extras m)\<rparr>)"

text \<open>\<^verbatim>\<open>db.collection("messages").updateOne({ _id: i }, { $set: body })\<close>\<close>

definition messages_updateOne :: "nat \<Rightarrow> jsobj \<Rightarrow> unit action" where
  "messages_updateOne i body =
     await (\<lambda>d. ((), d\<lparr>messages :=
                          update_first (\<lambda>m. fst m = i)
                            (\<lambda>m. (fst m, foldr set_field body (snd m))) (messages d)\<rparr>))"

section \<open>Validation with joi\<close>

text \<open>
  The schemas are built from \<^verbatim>\<open>joi.string().required()\<close>, with \<^verbatim>\<open>.trim()\<close> in variant 2,
  and \<^verbatim>\<open>joi.string().allow("message", "private_message").only().required()\<close>. They are
  run with \<^verbatim>\<open>abortEarly: false\<close>, so the result lists every violation; a details list
  that is empty is the \<^verbatim>\<open>validation.error\<close> that is undefined. Each detail is kept as
  its joi error code and the key it is about.
\<close>

datatype joi_detail =
  AnyRequired string | StringBase string | StringEmpty string | AnyOnly string
  | ObjectUnknown string

fun joi_string_required :: "string \<Rightarrow> jsval \<Rightarrow> joi_detail list" where
  "joi_string_required k JUndefined = [AnyRequired k]"
| "joi_string_required k (JStr s) = (if s = [] then [StringEmpty k] else [])"
| "joi_string_required k v = [StringBase k]"

definition is_space :: "char \<Rightarrow> bool" where
  "is_space c = (c \<in> set [CHR '' '', CHR 0x09, CHR 0x0A, CHR 0x0B, CHR 0x0C, CHR 0x0D])"

definition trim :: "string \<Rightarrow> string" where
  "trim s = rev (dropWhile is_space (rev (dropWhile is_space s)))"

fun joi_string_required_trim :: "string \<Rightarrow> jsval \<Rightarrow> joi_detail list" where
  "joi_string_required_trim k JUndefined = [AnyRequired k]"
| "joi_string_required_trim k (JStr s) = (if trim s = [] then [StringEmpty k] else [])"
| "joi_string_required_trim k v = [StringBase k]"

fun joi_type :: "string \<Rightarrow> jsval \<Rightarrow> joi_detail list" where
  "joi_type k JUndefined = [AnyRequired k]"
| "joi_type k v =
     (if v \<in> set [JStr ''message'', JStr ''private_message''] then [] else [AnyOnly k])"

text \<open>Variant 1: \<^verbatim>\<open>nameSchema.validate({ name })\<close>, \<^verbatim>\<open>userSchema.validate({ user })\<close> and
  \<^verbatim>\<open>messageSchema.validate({ user, to, text, type })\<close>. The validated object is a literal
  with the schema's own keys.\<close>

definition nameSchema_validate :: "jsval \<Rightarrow> joi_detail list" where
  "nameSchema_validate n = joi_string_required ''name'' n"

definition userSchema_validate :: "jsval \<Rightarrow> joi_detail list" where
  "userSchema_validate u = joi_string_required ''user'' u"

definition messageSchema_validate :: "jsval \<Rightarrow> jsval \<Rightarrow> jsval \<Rightarrow> jsval \<Rightarrow> joi_detail list" where
  "messageSchema_validate u to_v text_v type_v =
     joi_string_required ''user'' u @ joi_string_required ''to'' to_v
     @ joi_string_required ''text'' text_v @ joi_type ''type'' type_v"

text \<open>
  Variant 2 (app.js lines 216-221): the module-level \<^verbatim>\<open>messageSchema\<close>, here validating
  an arbitrary object. A joi object schema reports every key of the object that the
  schema does not name (\<^verbatim>\<open>"k" is not allowed\<close>), whatever its value.
\<close>

definition messageSchema2_validate :: "jsobj \<Rightarrow> joi_detail list" where
  "messageSchema2_validate obj =
     joi_string_required_trim ''user'' (property obj ''user'')
     @ joi_string_required_trim ''to'' (property obj ''to'')
     @ joi_string_required_trim ''text'' (property obj ''text'')
     @ joi_type ''type'' (property obj ''type'')
     @ map ObjectUnknown
         (filter (\<lambda>k. k \<notin> set [''user'', ''to'', ''text'', ''type'']) (remdups (map fst obj)))"

section \<open>Responses\<close>

datatype body =
  StatusText | Text string | Details "joi_detail list" | Messages "(nat \<times> message) list"
  | ErrMessage

type_synonym response = "nat \<times> body"

text \<open>\<^verbatim>\<open>res.sendStatus(n)\<close>\<close>

definition sendStatus :: "nat \<Rightarrow> response" where
  "sendStatus n = (n, StatusText)"

section \<open>Variant 1 (app.js, lines 1-188)\<close>

text \<open>\<^verbatim>\<open>app.post("/participants", ...)\<close>; \<open>now\<close> is what \<^verbatim>\<open>Date.now()\<close> returns and
  \<open>currentTime\<close> what \<^verbatim>\<open>dayjs().format("HH:mm:ss")\<close> returns.\<close>

definition post_participants :: "jsobj \<Rightarrow> int \<Rightarrow> string \<Rightarrow> faults \<Rightarrow> db \<Rightarrow> response \<times> db" where
  "post_participants body now currentTime =
     (let n = property body ''name''; errors = nameSchema_validate n in
      if errors \<noteq> [] then (\<lambda>fs d. ((422, Details errors), d))
      else try_catch
        (bnd (participants_findOne n) (\<lambda>existingParticipant.
           if existingParticipant \<noteq> None then ret (sendStatus 409)
           else bnd (participants_insertOne n now) (\<lambda>_.
                bnd (messages_insertOne
                      \<lparr>msg_from = n, msg_to = JStr ''Todos'',
                       msg_text = JStr ''entra na sala...'', msg_type = JStr ''status'',
                       msg_time = JStr currentTime, extras = []\<rparr>) (\<lambda>_.
                ret (sendStatus 201)))))
        (500, ErrMessage))"

text \<open>\<^verbatim>\<open>app.post("/messages", ...)\<close>\<close>

definition post_messages :: "string option \<Rightarrow> jsobj \<Rightarrow> string \<Rightarrow> faults \<Rightarrow> db \<Rightarrow> response \<times> db" where
  "post_messages user body currentTime =
     (let to_v = property body ''to''; text_v = property body ''text'';
          type_v = property body ''type'';
          errors = messageSchema_validate (hdr user) to_v text_v type_v in
      if errors \<noteq> [] then (\<lambda>fs d. ((422, Details errors), d))
      else try_catch
        (bnd (participants_findOne (hdr user)) (\<lambda>existingParticipant.
           if existingParticipant = None then ret (sendStatus 422)
           else bnd (messages_insertOne
                      \<lparr>msg_from = hdr user, msg_to = to_v, msg_text = text_v,
                       msg_type = type_v, msg_time = JStr currentTime, extras = []\<rparr>) (\<lambda>_.
                ret (sendStatus 201))))
        (500, ErrMessage))"

text \<open>
  The filter of \<^verbatim>\<open>app.get("/messages", ...)\<close>, the same text in variant 1 (lines 105-121)
  and in variant 2 (lines 305-321).
\<close>

definition visible :: "jsval \<Rightarrow> message \<Rightarrow> bool" where
  "visible user m =
     (msg_type m \<in> set [JStr ''status'', JStr ''message'']
      \<or> (msg_type m = JStr ''private_message''
          \<and> ((msg_from m = bson user \<and> msg_to m \<noteq> bson user)
              \<or> (msg_from m \<noteq> bson user \<and> msg_to m = bson user)))
      \<or> msg_from m = JStr ''Todos'')"

text \<open>\<^verbatim>\<open>app.get("/messages", ...)\<close>, the same text in variant 1 (lines 94-128) and in
  variant 2 (lines 294-328); \<open>limit\<close> is \<^verbatim>\<open>Number(req.query.limit)\<close>.\<close>

definition get_messages :: "string option \<Rightarrow> jsnum \<Rightarrow> faults \<Rightarrow> db \<Rightarrow> response \<times> db" where
  "get_messages user limit =
     (if isNaN limit \<or> le_zero limit then (\<lambda>fs d. ((422, Text ''Invalid limit value''), d))
      else try_catch
        (bnd (messages_find_limit (visible (hdr user)) (case limit of Num n \<Rightarrow> n | NaN \<Rightarrow> 0))
           (\<lambda>validMessages. ret (200, Messages validMessages)))
        (500, ErrMessage))"

text \<open>\<^verbatim>\<open>app.post("/status", ...)\<close>\<close>

definition post_status :: "string option \<Rightarrow> int \<Rightarrow> faults \<Rightarrow> db \<Rightarrow> response \<times> db" where
  "post_status user now =
     (let errors = userSchema_validate (hdr user) in
      if errors \<noteq> [] then (\<lambda>fs d. ((404, Details errors), d))
      else try_catch
        (bnd (participants_findOne (hdr user)) (\<lambda>existingParticipant.
           if existingParticipant = None then ret (sendStatus 404)
           else bnd (participants_updateOne (hdr user) now) (\<lambda>_. ret (sendStatus 200))))
        (sendStatus 500))"

text \<open>
  The body of the \<^verbatim>\<open>setInterval\<close> callback, the same text in the three variants. The loop
  \<^verbatim>\<open>for (const participant of inactiveParticipants)\<close> is inside the one \<^verbatim>\<open>try\<close>. The
  boolean returned says whether the \<^verbatim>\<open>catch\<close> ran, that is whether \<^verbatim>\<open>console.error\<close>
  was called.
\<close>

primrec evict :: "(nat \<times> participant) list \<Rightarrow> string \<Rightarrow> unit action" where
  "evict [] currentTime = ret ()"
| "evict (p # ps) currentTime =
     bnd (participants_deleteOne (fst p)) (\<lambda>_.
     bnd (messages_insertOne
           \<lparr>msg_from = name (snd p), msg_to = JStr ''Todos'',
            msg_text = JStr ''sai da sala...'', msg_type = JStr ''status'',
            msg_time = JStr currentTime, extras = []\<rparr>) (\<lambda>_.
     evict ps currentTime))"

definition sweeper :: "int \<Rightarrow> string \<Rightarrow> faults \<Rightarrow> db \<Rightarrow> bool \<times> db" where
  "sweeper now currentTime =
     try_catch
       (bnd (participants_find_lt (now - 10000)) (\<lambda>inactiveParticipants.
        bnd (evict inactiveParticipants currentTime) (\<lambda>_. ret False)))
       True"

text \<open>
  The document that the loop stores for a removed participant \<open>p\<close>: the \<^verbatim>\<open>message\<close>
  of the loop body, as the driver writes it.
\<close>

definition leave_message :: "string \<Rightarrow> nat \<times> participant \<Rightarrow> message" where
  "leave_message t p = \<lparr>msg_from = bson (name (snd p)), msg_to = JStr ''Todos'',
            msg_text = JStr ''sai da sala...'', msg_type = JStr ''status'',
            msg_time = JStr t, extras = []\<rparr>"

section \<open>Variant 3 (part_000)\<close>

text \<open>\<^verbatim>\<open>app.post("/participants", ...)\<close>\<close>

definition post_participants_v3 :: "jsobj \<Rightarrow> int \<Rightarrow> string \<Rightarrow> faults \<Rightarrow> db \<Rightarrow> response \<times> db" where
  "post_participants_v3 body now currentTime =
     (let n = property body ''name'' in
      try_catch
        (if falsy n then ret (sendStatus 422)
         else bnd (participants_findOne n) (\<lambda>existingParticipant.
           if existingParticipant \<noteq> None then ret (sendStatus 409)
           else bnd (participants_insertOne n now) (\<lambda>_.
                bnd (messages_insertOne
                      \<lparr>msg_from = n, msg_to = JStr ''Todos'',
                       msg_text = JStr ''entra na sala...'', msg_type = JStr ''status'',
                       msg_time = JStr currentTime, extras = []\<rparr>) (\<lambda>_.
                ret (sendStatus 201)))))
        (500, ErrMessage))"

text \<open>\<^verbatim>\<open>app.post("/messages", ...)\<close>\<close>

definition post_messages_v3 :: "string option \<Rightarrow> jsobj \<Rightarrow> string \<Rightarrow> faults \<Rightarrow> db \<Rightarrow> response \<times> db" where
  "post_messages_v3 user body currentTime =
     (let to_v = property body ''to''; text_v = property body ''text'';
          type_v = property body ''type'' in
      try_catch
        (if not_string to_v \<or> to_v = JStr [] \<or> not_string text_v \<or> text_v = JStr []
         then ret (sendStatus 422)
         else if type_v \<noteq> JStr ''message'' \<and> type_v \<noteq> JStr ''private_message''
         then ret (sendStatus 422)
         else bnd (participants_findOne (hdr user)) (\<lambda>existingParticipant.
           if existingParticipant = None then ret (sendStatus 422)
           else bnd (messages_insertOne
                      \<lparr>msg_from = hdr user, msg_to = to_v, msg_text = text_v,
                       msg_type = type_v, msg_time = JStr currentTime, extras = []\<rparr>) (\<lambda>_.
                ret (sendStatus 201))))
        (500, ErrMessage))"

text \<open>The filter of \<^verbatim>\<open>app.get("/messages", ...)\<close> (line 94).\<close>

definition visible_v3 :: "jsval \<Rightarrow> message \<Rightarrow> bool" where
  "visible_v3 user m =
     (msg_type m \<in> set [JStr ''private_message'', JStr ''status'', JStr ''message'']
      \<or> msg_from m \<in> set [JStr ''Todos'', bson user]
      \<or> msg_to m = bson user)"

text \<open>\<^verbatim>\<open>app.get("/messages", ...)\<close>\<close>

definition get_messages_v3 :: "string option \<Rightarrow> jsnum \<Rightarrow> faults \<Rightarrow> db \<Rightarrow> response \<times> db" where
  "get_messages_v3 user limit =
     try_catch
       (if isNaN limit \<or> le_zero limit then ret (422, Text ''Invalid limit value'')
        else bnd (messages_find_limit (visible_v3 (hdr user))
                    (case limit of Num n \<Rightarrow> n | NaN \<Rightarrow> 0))
               (\<lambda>validMessages. ret (200, Messages validMessages)))
       (500, ErrMessage)"

text \<open>\<^verbatim>\<open>app.post("/status", ...)\<close>\<close>

definition post_status_v3 :: "string option \<Rightarrow> int \<Rightarrow> faults \<Rightarrow> db \<Rightarrow> response \<times> db" where
  "post_status_v3 user now =
     try_catch
       (if falsy (hdr user) then ret (sendStatus 404)
        else bnd (participants_findOne (hdr user)) (\<lambda>existingParticipant.
          if existingParticipant = None then ret (sendStatus 404)
          else bnd (participants_updateOne (hdr user) now) (\<lambda>_. ret (sendStatus 200))))
       (sendStatus 500)"

section \<open>Variant 2 (app.js, lines 190-425): editing a message\<close>

text \<open>
  \<^verbatim>\<open>app.put("/messages/:id", ...)\<close>. \<open>ObjectId\<close> is the driver's parser of identifiers,
  \<open>None\<close> where \<^verbatim>\<open>new ObjectId(id)\<close> throws. The validated object is
  \<^verbatim>\<open>{ ...req.body, from: user }\<close>: the keys of the body and the key \<^verbatim>\<open>from\<close>.
\<close>

definition new_ObjectId :: "(string \<Rightarrow> nat option) \<Rightarrow> string \<Rightarrow> nat action" where
  "new_ObjectId ObjectId s = (case ObjectId s of None \<Rightarrow> throw | Some i \<Rightarrow> ret i)"

definition put_messages_id ::
  "(string \<Rightarrow> nat option) \<Rightarrow> string option \<Rightarrow> string \<Rightarrow> jsobj \<Rightarrow> faults \<Rightarrow> db \<Rightarrow> response \<times> db" where
  "put_messages_id ObjectId user ident body =
     (let errors = messageSchema2_validate ((''from'', hdr user) # body) in
      if errors \<noteq> [] then (\<lambda>fs d. ((422, Details errors), d))
      else try_catch
        (bnd (participants_findOne (hdr user)) (\<lambda>participant.
           if participant = None then ret (sendStatus 422)
           else bnd (new_ObjectId ObjectId ident) (\<lambda>i.
                bnd (messages_findOne i) (\<lambda>message.
                  case message of
                    None \<Rightarrow> ret (sendStatus 404)
                  | Some m \<Rightarrow>
                      if msg_from (snd m) \<noteq> hdr user then ret (sendStatus 401)
                      else bnd (new_ObjectId ObjectId ident) (\<lambda>j.
                           bnd (messages_updateOne j body) (\<lambda>_.
                           ret (sendStatus 200)))))))
        (500, ErrMessage))"

section \<open>Reachable stores\<close>

text \<open>A fresh database.\<close>

definition empty_db :: db where
  "empty_db = \<lparr>participants = [], messages = [], next_id = 0\<rparr>"

text \<open>
  The stores that the handlers of variants 1 and 3 and the sweeper produce from a fresh
  database, for any requests, clock values and outcomes of driver calls. (Querying messages
  and editing a message leave the store as it is.)
\<close>

inductive reachable :: "db \<Rightarrow> bool" where
  start: "reachable empty_db"
| join: "reachable d \<Longrightarrow> reachable (snd (post_participants body now t fs d))"
| join_v3: "reachable d \<Longrightarrow> reachable (snd (post_participants_v3 body now t fs d))"
| post: "reachable d \<Longrightarrow> reachable (snd (post_messages user body t fs d))"
| post_v3: "reachable d \<Longrightarrow> reachable (snd (post_messages_v3 user body t fs d))"
| status: "reachable d \<Longrightarrow> reachable (snd (post_status user now fs d))"
| status_v3: "reachable d \<Longrightarrow> reachable (snd (post_status_v3 user now fs d))"
| sweep: "reachable d \<Longrightarrow> reachable (snd (sweeper now t fs d))"

text \<open>
  What the store guarantees of the directory, and what the joins keep: the \<^verbatim>\<open>_id\<close>s are
  distinct and were given out by the driver, there is at most one participant per name, and
  no name is falsy (so a name that is a string is not empty).
\<close>

definition directory_ok :: "db \<Rightarrow> bool" where
  "directory_ok d \<longleftrightarrow>
     distinct (map fst (participants d))
     \<and> list_all (\<lambda>p. fst p < next_id d) (participants d)
     \<and> distinct (map (\<lambda>p. name (snd p)) (participants d))
     \<and> list_all (\<lambda>p. \<not> falsy (name (snd p))) (participants d)"

text \<open>The store that an action leaves, whether it returned or threw.\<close>

fun db_of :: "'a result \<Rightarrow> db" where
  "db_of (Done a fs d) = d"
| "db_of (Thrown d) = d"

section \<open>Sample runs\<close>

text \<open>Stores reached from a fresh database by requests to variant 1.\<close>

definition room :: db where
  "room =
     snd (post_messages (Some ''alice'')
            [(''to'', JStr ''alice''), (''text'', JStr ''lembrete''), (''type'', JStr ''private_message'')]
            ''10:00:03'' []
     (snd (post_messages (Some ''alice'')
            [(''to'', JStr ''bob''), (''text'', JStr ''oi''), (''type'', JStr ''private_message'')]
            ''10:00:02'' []
     (snd (post_participants [(''name'', JStr ''bob'')] 2000 ''10:00:01'' []
     (snd (post_participants [(''name'', JStr ''alice'')] 1000 ''10:00:00'' [] empty_db)))))))"

definition room_todos :: db where
  "room_todos =
     snd (post_messages (Some ''Todos'')
            [(''to'', JStr ''Todos''), (''text'', JStr ''nota''), (''type'', JStr ''private_message'')]
            ''10:00:03'' []
     (snd (post_messages (Some ''Todos'')
            [(''to'', JStr ''bob''), (''text'', JStr ''segredo''), (''type'', JStr ''private_message'')]
            ''10:00:02'' []
     (snd (post_participants [(''name'', JStr ''bob'')] 2000 ''10:00:01'' []
     (snd (post_participants [(''name'', JStr ''Todos'')] 1000 ''10:00:00'' [] empty_db)))))))"

text \<open>The store after \<^verbatim>\<open>dave\<close> alone has joined, at time 0.\<close>

definition room_dave :: db where
  "room_dave = snd (post_participants [(''name'', JStr ''dave'')] 0 ''10:00:00'' [] empty_db)"

text \<open>An identifier parser that knows the message of \<open>room\<close> with identifier 4.\<close>

definition sample_ObjectId :: "string \<Rightarrow> nat option" where
  "sample_ObjectId s = (if s = ''4'' then Some 4 else None)"

section \<open>Running the handlers\<close>

lemmas action_defs = ret_def bnd_def await_def try_catch_def throw_def
lemmas store_defs = participants_findOne_def participants_insertOne_def participants_updateOne_def
  participants_find_lt_def participants_deleteOne_def messages_insertOne_def messages_find_limit_def
  messages_findOne_def messages_updateOne_def bson_message_def
lemmas joi_defs = nameSchema_validate_def userSchema_validate_def messageSchema_validate_def

lemma find_None_iff: "find P xs = None \<longleftrightarrow> (\<forall>x\<in>set xs. \<not> P x)"
  by (induction xs) auto

lemma joi_string_required_ok: "joi_string_required k v = [] \<longleftrightarrow> (\<exists>s. v = JStr s \<and> s \<noteq> [])"
  by (cases v) auto

lemma joi_type_ok: "joi_type k v = [] \<longleftrightarrow> v = JStr ''message'' \<or> v = JStr ''private_message''"
  by (cases v) auto

lemma get_messages_run:
  "get_messages user limit fs d =
     (if isNaN limit \<or> le_zero limit then ((422, Text ''Invalid limit value''), d)
      else if fs \<noteq> [] \<and> hd fs then ((500, ErrMessage), d)
      else ((200, Messages (take (nat (case limit of Num n \<Rightarrow> n | NaN \<Rightarrow> 0))
                              (filter (\<lambda>m. visible (hdr user) (snd m)) (messages d)))), d))"
  by (simp add: get_messages_def action_defs store_defs split: list.splits)

lemma get_messages_v3_run:
  "get_messages_v3 user limit fs d =
     (if isNaN limit \<or> le_zero limit then ((422, Text ''Invalid limit value''), d)
      else if fs \<noteq> [] \<and> hd fs then ((500, ErrMessage), d)
      else ((200, Messages (take (nat (case limit of Num n \<Rightarrow> n | NaN \<Rightarrow> 0))
                              (filter (\<lambda>m. visible_v3 (hdr user) (snd m)) (messages d)))), d))"
  by (simp add: get_messages_v3_def action_defs store_defs split: list.splits)

lemma post_participants_run:
  "post_participants body now t [] d =
     (if nameSchema_validate (property body ''name'') \<noteq> []
      then ((422, Details (nameSchema_validate (property body ''name''))), d)
      else if find (\<lambda>p. name (snd p) = bson (property body ''name'')) (participants d) \<noteq> None
      then ((409, StatusText), d)
      else ((201, StatusText),
            \<lparr>participants = participants d
               @ [(next_id d, \<lparr>name = bson (property body ''name''), lastStatus = now\<rparr>)],
             messages = messages d
               @ [(Suc (next_id d),
                   \<lparr>msg_from = bson (property body ''name''), msg_to = JStr ''Todos'',
                    msg_text = JStr ''entra na sala...'', msg_type = JStr ''status'',
                    msg_time = JStr t, extras = []\<rparr>)],
             next_id = Suc (Suc (next_id d))\<rparr>))"
  by (simp add: post_participants_def Let_def action_defs store_defs sendStatus_def)

lemma post_participants_v3_run:
  "post_participants_v3 body now t [] d =
     (if falsy (property body ''name'') then ((422, StatusText), d)
      else if find (\<lambda>p. name (snd p) = bson (property body ''name'')) (participants d) \<noteq> None
      then ((409, StatusText), d)
      else ((201, StatusText),
            \<lparr>participants = participants d
               @ [(next_id d, \<lparr>name = bson (property body ''name''), lastStatus = now\<rparr>)],
             messages = messages d
               @ [(Suc (next_id d),
                   \<lparr>msg_from = bson (property body ''name''), msg_to = JStr ''Todos'',
                    msg_text = JStr ''entra na sala...'', msg_type = JStr ''status'',
                    msg_time = JStr t, extras = []\<rparr>)],
             next_id = Suc (Suc (next_id d))\<rparr>))"
  by (simp add: post_participants_v3_def Let_def action_defs store_defs sendStatus_def)

lemma post_messages_run:
  "post_messages user body t [] d =
     (if messageSchema_validate (hdr user) (property body ''to'') (property body ''text'')
           (property body ''type'') \<noteq> []
      then ((422, Details (messageSchema_validate (hdr user) (property body ''to'')
                             (property body ''text'') (property body ''type''))), d)
      else if find (\<lambda>p. name (snd p) = bson (hdr user)) (participants d) = None
      then ((422, StatusText), d)
      else ((201, StatusText),
            \<lparr>participants = participants d,
             messages = messages d
               @ [(next_id d,
                   \<lparr>msg_from = bson (hdr user), msg_to = bson (property body ''to''),
                    msg_text = bson (property body ''text''),
                    msg_type = bson (property body ''type''),
                    msg_time = JStr t, extras = []\<rparr>)],
             next_id = Suc (next_id d)\<rparr>))"
  by (simp add: post_messages_def Let_def action_defs store_defs sendStatus_def)

lemma post_messages_v3_run:
  "post_messages_v3 user body t [] d =
     (if not_string (property body ''to'') \<or> property body ''to'' = JStr []
         \<or> not_string (property body ''text'') \<or> property body ''text'' = JStr []
      then ((422, StatusText), d)
      else if property body ''type'' \<noteq> JStr ''message''
              \<and> property body ''type'' \<noteq> JStr ''private_message''
      then ((422, StatusText), d)
      else if find (\<lambda>p. name (snd p) = bson (hdr user)) (participants d) = None
      then ((422, StatusText), d)
      else ((201, StatusText),
            \<lparr>participants = participants d,
             messages = messages d
               @ [(next_id d,
                   \<lparr>msg_from = bson (hdr user), msg_to = bson (property body ''to''),
                    msg_text = bson (property body ''text''),
                    msg_type = bson (property body ''type''),
                    msg_time = JStr t, extras = []\<rparr>)],
             next_id = Suc (next_id d)\<rparr>))"
  by (simp add: post_messages_v3_def Let_def action_defs store_defs sendStatus_def)

lemma post_status_run:
  "post_status user now [] d =
     (if userSchema_validate (hdr user) \<noteq> []
      then ((404, Details (userSchema_validate (hdr user))), d)
      else if find (\<lambda>p. name (snd p) = bson (hdr user)) (participants d) = None
      then ((404, StatusText), d)
      else ((200, StatusText),
            d\<lparr>participants :=
                 update_first (\<lambda>p. name (snd p) = bson (hdr user))
                   (\<lambda>p. (fst p, (snd p)\<lparr>lastStatus := now\<rparr>)) (participants d)\<rparr>))"
  by (simp add: post_status_def Let_def action_defs store_defs sendStatus_def)

lemma post_status_v3_run:
  "post_status_v3 user now [] d =
     (if falsy (hdr user) then ((404, StatusText), d)
      else if find (\<lambda>p. name (snd p) = bson (hdr user)) (participants d) = None
      then ((404, StatusText), d)
      else ((200, StatusText),
            d\<lparr>participants :=
                 update_first (\<lambda>p. name (snd p) = bson (hdr user))
                   (\<lambda>p. (fst p, (snd p)\<lparr>lastStatus := now\<rparr>)) (participants d)\<rparr>))"
  by (simp add: post_status_v3_def Let_def action_defs store_defs sendStatus_def)

lemmas eval_simps = property_def hdr_def joi_defs

lemma room_eq:
  "room = \<lparr>participants =
       [(0, \<lparr>name = JStr ''alice'', lastStatus = 1000\<rparr>),
        (2, \<lparr>name = JStr ''bob'', lastStatus = 2000\<rparr>)],
     messages =
       [(1, \<lparr>msg_from = JStr ''alice'', msg_to = JStr ''Todos'', msg_text = JStr ''entra na sala...'',
             msg_type = JStr ''status'', msg_time = JStr ''10:00:00'', extras = []\<rparr>),
        (3, \<lparr>msg_from = JStr ''bob'', msg_to = JStr ''Todos'', msg_text = JStr ''entra na sala...'',
             msg_type = JStr ''status'', msg_time = JStr ''10:00:01'', extras = []\<rparr>),
        (4, \<lparr>msg_from = JStr ''alice'', msg_to = JStr ''bob'', msg_text = JStr ''oi'',
             msg_type = JStr ''private_message'', msg_time = JStr ''10:00:02'', extras = []\<rparr>),
        (5, \<lparr>msg_from = JStr ''alice'', msg_to = JStr ''alice'', msg_text = JStr ''lembrete'',
             msg_type = JStr ''private_message'', msg_time = JStr ''10:00:03'', extras = []\<rparr>)],
     next_id = 6\<rparr>"
  by (simp add: room_def empty_db_def post_participants_run post_messages_run eval_simps)

lemma room_todos_eq:
  "room_todos = \<lparr>participants =
       [(0, \<lparr>name = JStr ''Todos'', lastStatus = 1000\<rparr>),
        (2, \<lparr>name = JStr ''bob'', lastStatus = 2000\<rparr>)],
     messages =
       [(1, \<lparr>msg_from = JStr ''Todos'', msg_to = JStr ''Todos'', msg_text = JStr ''entra na sala...'',
             msg_type = JStr ''status'', msg_time = JStr ''10:00:00'', extras = []\<rparr>),
        (3, \<lparr>msg_from = JStr ''bob'', msg_to = JStr ''Todos'', msg_text = JStr ''entra na sala...'',
             msg_type = JStr ''status'', msg_time = JStr ''10:00:01'', extras = []\<rparr>),
        (4, \<lparr>msg_from = JStr ''Todos'', msg_to = JStr ''bob'', msg_text = JStr ''segredo'',
             msg_type = JStr ''private_message'', msg_time = JStr ''10:00:02'', extras = []\<rparr>),
        (5, \<lparr>msg_from = JStr ''Todos'', msg_to = JStr ''Todos'', msg_text = JStr ''nota'',
             msg_type = JStr ''private_message'', msg_time = JStr ''10:00:03'', extras = []\<rparr>)],
     next_id = 6\<rparr>"
  by (simp add: room_todos_def empty_db_def post_participants_run post_messages_run eval_simps)

lemma room_dave_eq:
  "room_dave = \<lparr>participants = [(0, \<lparr>name = JStr ''dave'', lastStatus = 0\<rparr>)],
     messages =
       [(1, \<lparr>msg_from = JStr ''dave'', msg_to = JStr ''Todos'', msg_text = JStr ''entra na sala...'',
             msg_type = JStr ''status'', msg_time = JStr ''10:00:00'', extras = []\<rparr>)],
     next_id = 2\<rparr>"
  by (simp add: room_dave_def empty_db_def post_participants_run eval_simps)

lemma update_first_distinct:
  "distinct (map g xs) \<Longrightarrow>
   update_first (\<lambda>p. g p = v) f xs = map (\<lambda>p. if g p = v then f p else p) xs"
proof (induction xs)
  case Nil
  then show ?case by simp
next
  case (Cons x xs)
  have "g p \<noteq> g x" if "p \<in> set xs" for p
  proof
    assume "g p = g x"
    with that have "g x \<in> g ` set xs" by (rule_tac x = p in image_eqI) simp_all
    with Cons.prems show False by simp
  qed
  then have "g x = v \<Longrightarrow> map (\<lambda>p. if g p = v then f p else p) xs = xs"
    by (intro map_idI) auto
  with Cons show ?case by simp
qed

lemma delete_first_distinct:
  "distinct (map fst xs) \<Longrightarrow> delete_first (\<lambda>q. fst q = i) xs = filter (\<lambda>q. fst q \<noteq> i) xs"
proof (induction xs)
  case Nil
  then show ?case by simp
next
  case (Cons x xs)
  have "fst q \<noteq> fst x" if "q \<in> set xs" for q
  proof
    assume "fst q = fst x"
    with that have "fst x \<in> fst ` set xs" by (rule_tac x = q in image_eqI) simp_all
    with Cons.prems show False by simp
  qed
  then have "fst x = i \<Longrightarrow> filter (\<lambda>q. fst q \<noteq> i) xs = xs"
    by (intro filter_True) auto
  with Cons show ?case by simp
qed

lemma fold_delete_first:
  "distinct (map fst xs) \<Longrightarrow>
   fold (\<lambda>p. delete_first (\<lambda>q. fst q = fst p)) ps xs = filter (\<lambda>q. fst q \<notin> fst ` set ps) xs"
proof (induction ps arbitrary: xs)
  case Nil
  then show ?case by simp
next
  case (Cons p ps)
  have "distinct (map fst (filter (\<lambda>q. fst q \<noteq> fst p) xs))"
    using Cons.prems by (simp add: distinct_map_filter)
  with Cons show ?case
    by (simp add: delete_first_distinct conj_commute)
qed

lemma fst_mem_sublist:
  assumes "distinct (map fst xs)" and "set ps \<subseteq> set xs" and "q \<in> set xs"
  shows "fst q \<in> fst ` set ps \<longleftrightarrow> q \<in> set ps"
proof
  assume "fst q \<in> fst ` set ps"
  then obtain p where p: "p \<in> set ps" "fst q = fst p" by auto
  with assms(2) have "p \<in> set xs" by auto
  with assms(1,3) p(2) have "q = p"
    by (meson distinct_map inj_onD)
  with p show "q \<in> set ps" by simp
qed auto

lemma evict_ok:
  "\<exists>d'. evict ps t [] d = Done () [] d'
     \<and> participants d' = fold (\<lambda>p. delete_first (\<lambda>q. fst q = fst p)) ps (participants d)
     \<and> map snd (messages d') = map snd (messages d) @ map (leave_message t) ps"
proof (induction ps arbitrary: d)
  case Nil
  then show ?case by (simp add: ret_def)
next
  case (Cons p ps)
  let ?d1 = "d\<lparr>participants := delete_first (\<lambda>q. fst q = fst p) (participants d),
               messages := messages d @ [(next_id d, leave_message t p)],
               next_id := Suc (next_id d)\<rparr>"
  have step: "evict (p # ps) t [] d = evict ps t [] ?d1"
    by (simp add: bnd_def await_def participants_deleteOne_def messages_insertOne_def
          bson_message_def leave_message_def)
  from Cons [of ?d1] show ?case
    unfolding step by simp
qed

lemma evict_fault:
  "j < 2 * length ps \<Longrightarrow>
   \<exists>d'. evict ps t (replicate j False @ True # rest) d = Thrown d'
     \<and> participants d' =
         fold (\<lambda>p. delete_first (\<lambda>q. fst q = fst p)) (take (Suc j div 2) ps) (participants d)
     \<and> map snd (messages d') = map snd (messages d) @ map (leave_message t) (take (j div 2) ps)"
proof (induction ps arbitrary: j d)
  case Nil
  then show ?case by simp
next
  case (Cons p ps)
  let ?d0 = "d\<lparr>participants := delete_first (\<lambda>q. fst q = fst p) (participants d)\<rparr>"
  let ?d1 = "d\<lparr>participants := delete_first (\<lambda>q. fst q = fst p) (participants d),
               messages := messages d @ [(next_id d, leave_message t p)],
               next_id := Suc (next_id d)\<rparr>"
  consider "j = 0" | "j = 1" | j' where "j = Suc (Suc j')"
    by (cases j rule: nat.exhaust; cases "j - 1") auto
  then show ?case
  proof cases
    case 1
    then show ?thesis
      by (simp add: bnd_def await_def participants_deleteOne_def)
  next
    case 2
    then show ?thesis
      by (simp add: bnd_def await_def participants_deleteOne_def messages_insertOne_def)
  next
    case 3
    have step: "evict (p # ps) t (replicate j False @ True # rest) d
                = evict ps t (replicate j' False @ True # rest) ?d1"
      by (simp add: 3 bnd_def await_def participants_deleteOne_def messages_insertOne_def
            bson_message_def leave_message_def)
    from Cons.prems 3 have "j' < 2 * length ps" by simp
    from Cons.IH [OF this, of ?d1] show ?thesis
      unfolding step by (simp add: 3)
  qed
qed


lemma stale_removed:
  assumes "distinct (map fst xs)" and "set ps \<subseteq> set xs"
  shows "filter (\<lambda>q. fst q \<notin> fst ` set ps) xs = filter (\<lambda>q. q \<notin> set ps) xs"
  using fst_mem_sublist [OF assms] by (intro filter_cong) auto

lemma post_status_absent_unchanged:
  "find (\<lambda>p. name (snd p) = bson (hdr user)) (participants d) = None \<Longrightarrow>
   snd (post_status user now fs d) = d \<and> snd (post_status_v3 user now fs d) = d"
  by (simp add: post_status_def post_status_v3_def Let_def action_defs store_defs sendStatus_def
        split: list.splits)

section \<open>The directory invariant\<close>

lemma post_messages_cases:
  "post_messages user body t fs d =
     (if messageSchema_validate (hdr user) (property body ''to'') (property body ''text'')
           (property body ''type'') \<noteq> []
      then ((422, Details (messageSchema_validate (hdr user) (property body ''to'')
                             (property body ''text'') (property body ''type''))), d)
      else if fs \<noteq> [] \<and> hd fs then ((500, ErrMessage), d)
      else if find (\<lambda>p. name (snd p) = bson (hdr user)) (participants d) = None
      then ((422, StatusText), d)
      else if tl fs \<noteq> [] \<and> hd (tl fs) then ((500, ErrMessage), d)
      else ((201, StatusText),
            d\<lparr>messages := messages d
               @ [(next_id d,
                   \<lparr>msg_from = bson (hdr user), msg_to = bson (property body ''to''),
                    msg_text = bson (property body ''text''),
                    msg_type = bson (property body ''type''),
                    msg_time = JStr t, extras = []\<rparr>)],
             next_id := Suc (next_id d)\<rparr>))"
  by (simp add: post_messages_def Let_def action_defs store_defs sendStatus_def split: list.splits)

lemma post_messages_v3_cases:
  "post_messages_v3 user body t fs d =
     (if not_string (property body ''to'') \<or> property body ''to'' = JStr []
         \<or> not_string (property body ''text'') \<or> property body ''text'' = JStr []
      then ((422, StatusText), d)
      else if property body ''type'' \<noteq> JStr ''message''
              \<and> property body ''type'' \<noteq> JStr ''private_message''
      then ((422, StatusText), d)
      else if fs \<noteq> [] \<and> hd fs then ((500, ErrMessage), d)
      else if find (\<lambda>p. name (snd p) = bson (hdr user)) (participants d) = None
      then ((422, StatusText), d)
      else if tl fs \<noteq> [] \<and> hd (tl fs) then ((500, ErrMessage), d)
      else ((201, StatusText),
            d\<lparr>messages := messages d
               @ [(next_id d,
                   \<lparr>msg_from = bson (hdr user), msg_to = bson (property body ''to''),
                    msg_text = bson (property body ''text''),
                    msg_type = bson (property body ''type''),
                    msg_time = JStr t, extras = []\<rparr>)],
             next_id := Suc (next_id d)\<rparr>))"
  by (simp add: post_messages_v3_def Let_def action_defs store_defs sendStatus_def split: list.splits)

lemma post_participants_cases:
  "post_participants body now t fs d =
     (if nameSchema_validate (property body ''name'') \<noteq> []
      then ((422, Details (nameSchema_validate (property body ''name''))), d)
      else if fs \<noteq> [] \<and> hd fs then ((500, ErrMessage), d)
      else if find (\<lambda>p. name (snd p) = bson (property body ''name'')) (participants d) \<noteq> None
      then ((409, StatusText), d)
      else if tl fs \<noteq> [] \<and> hd (tl fs) then ((500, ErrMessage), d)
      else if tl (tl fs) \<noteq> [] \<and> hd (tl (tl fs))
      then ((500, ErrMessage),
            d\<lparr>participants := participants d
               @ [(next_id d, \<lparr>name = bson (property body ''name''), lastStatus = now\<rparr>)],
             next_id := Suc (next_id d)\<rparr>)
      else ((201, StatusText),
            d\<lparr>participants := participants d
               @ [(next_id d, \<lparr>name = bson (property body ''name''), lastStatus = now\<rparr>)],
             messages := messages d
               @ [(Suc (next_id d),
                   \<lparr>msg_from = bson (property body ''name''), msg_to = JStr ''Todos'',
                    msg_text = JStr ''entra na sala...'', msg_type = JStr ''status'',
                    msg_time = JStr t, extras = []\<rparr>)],
             next_id := Suc (Suc (next_id d))\<rparr>))"
  by (simp add: post_participants_def Let_def action_defs store_defs sendStatus_def
        split: list.splits)

lemma post_participants_v3_cases:
  "post_participants_v3 body now t fs d =
     (if falsy (property body ''name'') then ((422, StatusText), d)
      else if fs \<noteq> [] \<and> hd fs then ((500, ErrMessage), d)
      else if find (\<lambda>p. name (snd p) = bson (property body ''name'')) (participants d) \<noteq> None
      then ((409, StatusText), d)
      else if tl fs \<noteq> [] \<and> hd (tl fs) then ((500, ErrMessage), d)
      else if tl (tl fs) \<noteq> [] \<and> hd (tl (tl fs))
      then ((500, ErrMessage),
            d\<lparr>participants := participants d
               @ [(next_id d, \<lparr>name = bson (property body ''name''), lastStatus = now\<rparr>)],
             next_id := Suc (next_id d)\<rparr>)
      else ((201, StatusText),
            d\<lparr>participants := participants d
               @ [(next_id d, \<lparr>name = bson (property body ''name''), lastStatus = now\<rparr>)],
             messages := messages d
               @ [(Suc (next_id d),
                   \<lparr>msg_from = bson (property body ''name''), msg_to = JStr ''Todos'',
                    msg_text = JStr ''entra na sala...'', msg_type = JStr ''status'',
                    msg_time = JStr t, extras = []\<rparr>)],
             next_id := Suc (Suc (next_id d))\<rparr>))"
  by (simp add: post_participants_v3_def Let_def action_defs store_defs sendStatus_def
        split: list.splits)

lemma post_status_cases:
  "post_status user now fs d =
     (if userSchema_validate (hdr user) \<noteq> []
      then ((404, Details (userSchema_validate (hdr user))), d)
      else if fs \<noteq> [] \<and> hd fs then ((500, StatusText), d)
      else if find (\<lambda>p. name (snd p) = bson (hdr user)) (participants d) = None
      then ((404, StatusText), d)
      else if tl fs \<noteq> [] \<and> hd (tl fs) then ((500, StatusText), d)
      else ((200, StatusText),
            d\<lparr>participants :=
                 update_first (\<lambda>p. name (snd p) = bson (hdr user))
                   (\<lambda>p. (fst p, (snd p)\<lparr>lastStatus := now\<rparr>)) (participants d)\<rparr>))"
  by (simp add: post_status_def Let_def action_defs store_defs sendStatus_def split: list.splits)

lemma post_status_v3_cases:
  "post_status_v3 user now fs d =
     (if falsy (hdr user) then ((404, StatusText), d)
      else if fs \<noteq> [] \<and> hd fs then ((500, StatusText), d)
      else if find (\<lambda>p. name (snd p) = bson (hdr user)) (participants d) = None
      then ((404, StatusText), d)
      else if tl fs \<noteq> [] \<and> hd (tl fs) then ((500, StatusText), d)
      else ((200, StatusText),
            d\<lparr>participants :=
                 update_first (\<lambda>p. name (snd p) = bson (hdr user))
                   (\<lambda>p. (fst p, (snd p)\<lparr>lastStatus := now\<rparr>)) (participants d)\<rparr>))"
  by (simp add: post_status_v3_def Let_def action_defs store_defs sendStatus_def split: list.splits)

lemma find_None_name:
  "find (\<lambda>p. name (snd p) = v) xs = None \<longleftrightarrow> v \<notin> set (map (\<lambda>p. name (snd p)) xs)"
  by (induction xs) (auto split: if_splits)

lemma list_all_mono_id: "list_all (\<lambda>p. fst p < n) xs \<Longrightarrow> n \<le> m \<Longrightarrow> list_all (\<lambda>p. fst p < (m::nat)) xs"
  by (induction xs) auto

lemma fresh_id: "list_all (\<lambda>p. fst p < n) xs \<Longrightarrow> (n::nat) \<notin> set (map fst xs)"
  by (induction xs) auto

lemma falsy_bson: "\<not> falsy v \<Longrightarrow> \<not> falsy (bson v)"
  by (cases v) auto

lemma directory_ok_insert:
  assumes "directory_ok d" and "\<not> falsy n" and "bson n \<notin> set (map (\<lambda>p. name (snd p)) (participants d))"
    and "Suc (next_id d) \<le> k"
  shows "directory_ok (d\<lparr>participants := participants d @ [(next_id d, \<lparr>name = bson n, lastStatus = t\<rparr>)],
                          next_id := k\<rparr>)"
    and "directory_ok (d\<lparr>participants := participants d @ [(next_id d, \<lparr>name = bson n, lastStatus = t\<rparr>)],
                          messages := ms, next_id := k\<rparr>)"
  using assms fresh_id [of "next_id d" "participants d"]
    list_all_mono_id [of "next_id d" "participants d" k]
  by (simp_all add: directory_ok_def falsy_bson)

lemma directory_ok_messages:
  "directory_ok d \<Longrightarrow> next_id d \<le> k \<Longrightarrow> directory_ok (d\<lparr>messages := ms, next_id := k\<rparr>)"
  using list_all_mono_id [of "next_id d" "participants d" k]
  by (simp add: directory_ok_def)

lemma update_first_keeps:
  "map fst (update_first P (\<lambda>p. (fst p, (snd p)\<lparr>lastStatus := t\<rparr>)) xs) = map fst xs"
  "map (\<lambda>p. name (snd p)) (update_first P (\<lambda>p. (fst p, (snd p)\<lparr>lastStatus := t\<rparr>)) xs)
     = map (\<lambda>p. name (snd p)) xs"
  by (induction xs) auto

lemma list_all_map: "list_all Q xs \<longleftrightarrow> list_all (\<lambda>v. Q' v) (map g xs)" if "\<And>x. Q x = Q' (g x)"
  using that by (induction xs) auto

lemma directory_ok_update:
  assumes "directory_ok d"
  shows "directory_ok (d\<lparr>participants :=
            update_first P (\<lambda>p. (fst p, (snd p)\<lparr>lastStatus := t\<rparr>)) (participants d)\<rparr>)"
proof -
  let ?ps = "update_first P (\<lambda>p. (fst p, (snd p)\<lparr>lastStatus := t\<rparr>)) (participants d)"
  have ids: "list_all (\<lambda>p. fst p < next_id d) xs \<longleftrightarrow> list_all (\<lambda>i. i < next_id d) (map fst xs)"
    for xs :: "(nat \<times> participant) list"
    by (induction xs) auto
  have names: "list_all (\<lambda>p. \<not> falsy (name (snd p))) xs
      \<longleftrightarrow> list_all (\<lambda>v. \<not> falsy v) (map (\<lambda>p. name (snd p)) xs)"
    for xs :: "(nat \<times> participant) list"
    by (induction xs) auto
  from assms show ?thesis
    unfolding directory_ok_def
    by (simp add: ids [of ?ps] names [of ?ps] update_first_keeps)
       (simp add: ids [symmetric] names [symmetric])
qed

lemma set_delete_first: "set (delete_first P xs) \<subseteq> set xs"
  by (induction xs) auto

lemma distinct_delete_first: "distinct (map g xs) \<Longrightarrow> distinct (map g (delete_first P xs))"
proof (induction xs)
  case Nil
  then show ?case by simp
next
  case (Cons x xs)
  with set_delete_first [of P xs] show ?case
    by (auto simp: image_iff)
qed

lemma list_all_delete_first: "list_all Q xs \<Longrightarrow> list_all Q (delete_first P xs)"
  by (induction xs) auto

lemma directory_ok_delete:
  "directory_ok d \<Longrightarrow> directory_ok (d\<lparr>participants := delete_first P (participants d)\<rparr>)"
  by (simp add: directory_ok_def distinct_delete_first list_all_delete_first)

lemma evict_directory_ok:
  "directory_ok d \<Longrightarrow> directory_ok (db_of (evict ps t fs d))"
proof (induction ps arbitrary: fs d)
  case Nil
  then show ?case by (simp add: ret_def)
next
  case (Cons p ps)
  let ?d0 = "d\<lparr>participants := delete_first (\<lambda>q. fst q = fst p) (participants d)\<rparr>"
  let ?d1 = "?d0\<lparr>messages := messages ?d0 @ [(next_id ?d0, leave_message t p)],
                 next_id := Suc (next_id ?d0)\<rparr>"
  have ok0: "directory_ok ?d0"
    using Cons.prems by (rule directory_ok_delete)
  then have ok1: "directory_ok ?d1"
    by (intro directory_ok_messages) simp_all
  consider (a) "fs \<noteq> [] \<and> hd fs" | (b) "\<not> (fs \<noteq> [] \<and> hd fs)" "tl fs \<noteq> [] \<and> hd (tl fs)"
    | (c) "\<not> (fs \<noteq> [] \<and> hd fs)" "\<not> (tl fs \<noteq> [] \<and> hd (tl fs))"
    by blast
  then show ?case
  proof cases
    case a
    then have "evict (p # ps) t fs d = Thrown d"
      by (cases fs) (simp_all add: bnd_def await_def participants_deleteOne_def)
    with Cons.prems show ?thesis by simp
  next
    case b
    then have "evict (p # ps) t fs d = Thrown ?d0"
      by (cases fs; cases "tl fs")
         (simp_all add: bnd_def await_def participants_deleteOne_def messages_insertOne_def)
    with ok0 show ?thesis by simp
  next
    case c
    then have "evict (p # ps) t fs d = evict ps t (tl (tl fs)) ?d1"
      by (cases fs; cases "tl fs")
         (simp_all add: bnd_def await_def participants_deleteOne_def messages_insertOne_def
            bson_message_def leave_message_def)
    with Cons.IH [OF ok1] show ?thesis by simp
  qed
qed

lemma sweeper_directory_ok:
  assumes "directory_ok d"
  shows "directory_ok (snd (sweeper now t fs d))"
proof (cases "fs \<noteq> [] \<and> hd fs")
  case True
  then have "sweeper now t fs d = (True, d)"
    by (cases fs) (simp_all add: sweeper_def try_catch_def bnd_def participants_find_lt_def await_def)
  with assms show ?thesis by simp
next
  case False
  let ?stale = "filter (\<lambda>p. lastStatus (snd p) < now - 10000) (participants d)"
  from False have "snd (sweeper now t fs d) = db_of (evict ?stale t (tl fs) d)"
    by (cases fs; cases "evict ?stale t (tl fs) d")
       (simp_all add: sweeper_def try_catch_def bnd_def participants_find_lt_def await_def ret_def)
  with evict_directory_ok [OF assms] show ?thesis by simp
qed

lemma joi_string_required_not_falsy: "joi_string_required k v = [] \<Longrightarrow> \<not> falsy v"
  by (cases v) (auto split: if_splits)

lemma reachable_directory_ok: "reachable d \<Longrightarrow> directory_ok d"
proof (induction rule: reachable.induct)
  case start
  show ?case by (simp add: directory_ok_def empty_db_def)
next
  case (join d body now t fs)
  then show ?case
    by (auto simp: post_participants_cases nameSchema_validate_def find_None_name
          intro!: directory_ok_insert dest: joi_string_required_not_falsy)
next
  case (join_v3 d body now t fs)
  then show ?case
    by (auto simp: post_participants_v3_cases find_None_name intro!: directory_ok_insert)
next
  case (post d user body t fs)
  then show ?case
    by (auto simp: post_messages_cases intro!: directory_ok_messages)
next
  case (post_v3 d user body t fs)
  then show ?case
    by (auto simp: post_messages_v3_cases intro!: directory_ok_messages)
next
  case (status d user now fs)
  then show ?case
    by (auto simp: post_status_cases intro!: directory_ok_update)
next
  case (status_v3 d user now fs)
  then show ?case
    by (auto simp: post_status_v3_cases intro!: directory_ok_update)
next
  case (sweep d now t fs)
  then show ?case by (simp add: sweeper_directory_ok)
qed

lemma room_reachable: "reachable room"
  unfolding room_def by (intro reachable.intros)

lemma room_directory_ok: "directory_ok room"
  using room_reachable by (rule reachable_directory_ok)

section \<open>Querying messages\<close>

text \<open>
  C7. A limit that is not a number or is not strictly positive is answered with 422 and
  the text \<^verbatim>\<open>Invalid limit value\<close>, whatever the pending outcomes of driver calls are,
  even when the next call would reject: no driver call is made and the store is left as it
  is. A positive limit is never answered with 422, and when the driver call succeeds the
  answer is 200 with the first \<open>limit\<close> visible messages. This holds for the three
  variants.
\<close>

theorem limit_validation:
  "(isNaN limit \<or> le_zero limit \<longrightarrow>
      get_messages user limit fs d = ((422, Text ''Invalid limit value''), d)
      \<and> get_messages_v3 user limit fs d = ((422, Text ''Invalid limit value''), d))
   \<and> (0 < n \<longrightarrow>
      get_messages user (Num n) [] d =
        ((200, Messages (take (nat n) (filter (\<lambda>m. visible (hdr user) (snd m)) (messages d)))), d)
      \<and> get_messages_v3 user (Num n) [] d =
        ((200, Messages (take (nat n) (filter (\<lambda>m. visible_v3 (hdr user) (snd m)) (messages d)))), d)
      \<and> fst (fst (get_messages user (Num n) fs d)) \<noteq> 422
      \<and> fst (fst (get_messages_v3 user (Num n) fs d)) \<noteq> 422)"
  by (simp add: get_messages_run get_messages_v3_run)

theorem limit_validation_witness:
  "le_zero (Num 0)
   \<and> get_messages (Some ''bob'') (Num 0) [True] room = ((422, Text ''Invalid limit value''), room)
   \<and> get_messages_v3 (Some ''bob'') (Num 0) [True] room = ((422, Text ''Invalid limit value''), room)
   \<and> (0::int) < 1
   \<and> get_messages (Some ''bob'') (Num 1) [] room = ((200, Messages [hd (messages room)]), room)
   \<and> get_messages_v3 (Some ''bob'') (Num 1) [] room = ((200, Messages [hd (messages room)]), room)"
  using limit_validation [of "Num 0" "Some ''bob''" "[True]" room 1]
  by (simp add: room_eq visible_def visible_v3_def hdr_def)

text \<open>
  C1, as amended. A query that answers 200 returns at most \<open>limit\<close> messages, in the
  three variants. In variants 1 and 2 every returned \<^verbatim>\<open>private_message\<close> has the viewer
  as exactly one of its sender and its recipient, or has the sender \<^verbatim>\<open>Todos\<close>.
\<close>

theorem query_bounded_and_private:
  "(get_messages user limit fs d = ((200, Messages ms), d') \<longrightarrow>
      (\<exists>n. limit = Num n \<and> int (length ms) \<le> n)
      \<and> (\<forall>m\<in>set ms. msg_type (snd m) = JStr ''private_message'' \<longrightarrow>
            (msg_from (snd m) = bson (hdr user) \<and> msg_to (snd m) \<noteq> bson (hdr user))
            \<or> (msg_from (snd m) \<noteq> bson (hdr user) \<and> msg_to (snd m) = bson (hdr user))
            \<or> msg_from (snd m) = JStr ''Todos''))
   \<and> (get_messages_v3 user limit fs d = ((200, Messages ms3), d3) \<longrightarrow>
      (\<exists>n. limit = Num n \<and> int (length ms3) \<le> n))"
proof (intro conjI impI)
  assume run: "get_messages user limit fs d = ((200, Messages ms), d')"
  then obtain n where lim: "limit = Num n" "0 < n"
    by (cases limit) (auto simp: get_messages_run split: if_splits)
  from run lim have ms: "ms = take (nat n) (filter (\<lambda>m. visible (hdr user) (snd m)) (messages d))"
    by (auto simp: get_messages_run split: if_splits)
  from lim ms show "\<exists>n. limit = Num n \<and> int (length ms) \<le> n"
    by auto
  show "\<forall>m\<in>set ms. msg_type (snd m) = JStr ''private_message'' \<longrightarrow>
            (msg_from (snd m) = bson (hdr user) \<and> msg_to (snd m) \<noteq> bson (hdr user))
            \<or> (msg_from (snd m) \<noteq> bson (hdr user) \<and> msg_to (snd m) = bson (hdr user))
            \<or> msg_from (snd m) = JStr ''Todos''"
  proof (intro ballI impI)
    fix m assume "m \<in> set ms" and priv: "msg_type (snd m) = JStr ''private_message''"
    then have "visible (hdr user) (snd m)"
      unfolding ms by (auto dest: in_set_takeD)
    with priv show "(msg_from (snd m) = bson (hdr user) \<and> msg_to (snd m) \<noteq> bson (hdr user))
            \<or> (msg_from (snd m) \<noteq> bson (hdr user) \<and> msg_to (snd m) = bson (hdr user))
            \<or> msg_from (snd m) = JStr ''Todos''"
      by (simp add: visible_def)
  qed
next
  assume run: "get_messages_v3 user limit fs d = ((200, Messages ms3), d3)"
  then obtain n where lim: "limit = Num n" "0 < n"
    by (cases limit) (auto simp: get_messages_v3_run split: if_splits)
  from run lim have "ms3 = take (nat n) (filter (\<lambda>m. visible_v3 (hdr user) (snd m)) (messages d))"
    by (auto simp: get_messages_v3_run split: if_splits)
  with lim show "\<exists>n. limit = Num n \<and> int (length ms3) \<le> n"
    by auto
qed

theorem query_bounded_and_private_witness:
  "get_messages (Some ''bob'') (Num 3) [] room = ((200, Messages (take 3 (messages room))), room)
   \<and> get_messages_v3 (Some ''bob'') (Num 3) [] room = ((200, Messages (take 3 (messages room))), room)
   \<and> length (take 3 (messages room)) = 3
   \<and> msg_type (snd (messages room ! 2)) = JStr ''private_message''
   \<and> msg_to (snd (messages room ! 2)) = JStr ''bob''"
proof -
  have v1: "get_messages (Some ''bob'') (Num 3) [] room = ((200, Messages (take 3 (messages room))), room)"
    by (simp add: get_messages_run room_eq visible_def hdr_def)
  have v3: "get_messages_v3 (Some ''bob'') (Num 3) [] room = ((200, Messages (take 3 (messages room))), room)"
    by (simp add: get_messages_v3_run room_eq visible_v3_def hdr_def)
  from query_bounded_and_private [of "Some ''bob''" "Num 3" "[]" room "take 3 (messages room)" room
      "take 3 (messages room)" room] v1 v3
  have "int (length (take 3 (messages room))) \<le> 3"
    by blast
  with v1 v3 show ?thesis
    by (simp add: room_eq)
qed

text \<open>
  C1 as stated fails: after \<^verbatim>\<open>Todos\<close> and \<^verbatim>\<open>bob\<close> have joined and \<^verbatim>\<open>Todos\<close> has
  sent \<^verbatim>\<open>bob\<close> a private message, the query of \<^verbatim>\<open>carol\<close> returns that message.
\<close>

theorem query_private_counterexample:
  "get_messages (Some ''carol'') (Num 10) [] room_todos =
     ((200, Messages
        [(1, \<lparr>msg_from = JStr ''Todos'', msg_to = JStr ''Todos'', msg_text = JStr ''entra na sala...'',
              msg_type = JStr ''status'', msg_time = JStr ''10:00:00'', extras = []\<rparr>),
         (3, \<lparr>msg_from = JStr ''bob'', msg_to = JStr ''Todos'', msg_text = JStr ''entra na sala...'',
              msg_type = JStr ''status'', msg_time = JStr ''10:00:01'', extras = []\<rparr>),
         (4, \<lparr>msg_from = JStr ''Todos'', msg_to = JStr ''bob'', msg_text = JStr ''segredo'',
              msg_type = JStr ''private_message'', msg_time = JStr ''10:00:02'', extras = []\<rparr>),
         (5, \<lparr>msg_from = JStr ''Todos'', msg_to = JStr ''Todos'', msg_text = JStr ''nota'',
              msg_type = JStr ''private_message'', msg_time = JStr ''10:00:03'', extras = []\<rparr>)]),
      room_todos)"
  by (simp add: get_messages_run room_todos_eq visible_def hdr_def)

text \<open>Variant 3 returns every private message to every viewer.\<close>

lemma get_messages_v3_shows_private:
  "get_messages_v3 (Some ''carol'') (Num 10) [] room =
     ((200, Messages (messages room)), room)"
  by (simp add: get_messages_v3_run room_eq visible_v3_def hdr_def)

text \<open>
  C10, as amended. In variants 1 and 2, for a viewer other than \<^verbatim>\<open>Todos\<close>, a stored
  \<^verbatim>\<open>private_message\<close> whose sender and recipient are both the viewer is not among the
  messages that the viewer's query returns.
\<close>

theorem self_addressed_hidden:
  assumes "get_messages user limit fs d = ((200, Messages ms), d')"
    and "user \<noteq> Some ''Todos''"
    and "m \<in> set (messages d)"
    and "msg_type (snd m) = JStr ''private_message''"
    and "msg_from (snd m) = bson (hdr user)" and "msg_to (snd m) = bson (hdr user)"
  shows "m \<notin> set ms"
proof -
  from assms(2) have "bson (hdr user) \<noteq> JStr ''Todos''"
    by (cases user) (simp_all add: hdr_def)
  with assms(4-6) have "\<not> visible (hdr user) (snd m)"
    by (simp add: visible_def)
  moreover from assms(1) have "set ms \<subseteq> set (filter (\<lambda>m. visible (hdr user) (snd m)) (messages d))"
    by (auto simp: get_messages_run split: if_splits dest: in_set_takeD)
  ultimately show ?thesis by auto
qed

theorem self_addressed_hidden_witness:
  "get_messages (Some ''alice'') (Num 10) [] room = ((200, Messages (take 3 (messages room))), room)
   \<and> messages room ! 3 \<in> set (messages room)
   \<and> msg_type (snd (messages room ! 3)) = JStr ''private_message''
   \<and> msg_from (snd (messages room ! 3)) = JStr ''alice''
   \<and> msg_to (snd (messages room ! 3)) = JStr ''alice''
   \<and> messages room ! 3 \<notin> set (take 3 (messages room))"
proof -
  have run: "get_messages (Some ''alice'') (Num 10) [] room = ((200, Messages (take 3 (messages room))), room)"
    by (simp add: get_messages_run room_eq visible_def hdr_def)
  have m: "messages room ! 3 \<in> set (messages room)"
    "msg_type (snd (messages room ! 3)) = JStr ''private_message''"
    "msg_from (snd (messages room ! 3)) = bson (hdr (Some ''alice''))"
    "msg_to (snd (messages room ! 3)) = bson (hdr (Some ''alice''))"
    by (simp_all add: room_eq hdr_def)
  have "Some ''alice'' \<noteq> Some ''Todos''" by simp
  from self_addressed_hidden [OF run this m]
  show ?thesis using run m by (simp add: hdr_def)
qed

text \<open>
  C10 as stated fails for the viewer \<^verbatim>\<open>Todos\<close>: the private message that \<^verbatim>\<open>Todos\<close>
  sent to \<^verbatim>\<open>Todos\<close> (the last one below) is returned.
\<close>

theorem self_addressed_counterexample:
  "get_messages (Some ''Todos'') (Num 10) [] room_todos =
     ((200, Messages
        [(1, \<lparr>msg_from = JStr ''Todos'', msg_to = JStr ''Todos'', msg_text = JStr ''entra na sala...'',
              msg_type = JStr ''status'', msg_time = JStr ''10:00:00'', extras = []\<rparr>),
         (3, \<lparr>msg_from = JStr ''bob'', msg_to = JStr ''Todos'', msg_text = JStr ''entra na sala...'',
              msg_type = JStr ''status'', msg_time = JStr ''10:00:01'', extras = []\<rparr>),
         (4, \<lparr>msg_from = JStr ''Todos'', msg_to = JStr ''bob'', msg_text = JStr ''segredo'',
              msg_type = JStr ''private_message'', msg_time = JStr ''10:00:02'', extras = []\<rparr>),
         (5, \<lparr>msg_from = JStr ''Todos'', msg_to = JStr ''Todos'', msg_text = JStr ''nota'',
              msg_type = JStr ''private_message'', msg_time = JStr ''10:00:03'', extras = []\<rparr>)]),
      room_todos)"
  by (simp add: get_messages_run room_todos_eq visible_def hdr_def)

section \<open>Joining\<close>

text \<open>
  C9. In variants 1 and 3, a join answered with 201 has appended the participant record
  and exactly one message \<^verbatim>\<open>{from: name, to: "Todos", text: "entra na sala...", type:
  "status"}\<close> at the end of the message board; a join answered with 422 or 409 leaves the
  message board as it was. This holds whatever driver calls reject.
\<close>

theorem join_appends_status_message:
  "(post_participants body now t fs d = ((st, b), d') \<longrightarrow>
      (st = 201 \<longrightarrow>
         participants d' = participants d
           @ [(next_id d, \<lparr>name = property body ''name'', lastStatus = now\<rparr>)]
         \<and> messages d' = messages d
           @ [(Suc (next_id d),
               \<lparr>msg_from = property body ''name'', msg_to = JStr ''Todos'',
                msg_text = JStr ''entra na sala...'', msg_type = JStr ''status'',
                msg_time = JStr t, extras = []\<rparr>)])
      \<and> (st = 422 \<or> st = 409 \<longrightarrow> messages d' = messages d))
   \<and> (post_participants_v3 body now t fs d = ((st3, b3), d3) \<longrightarrow>
      (st3 = 201 \<longrightarrow>
         participants d3 = participants d
           @ [(next_id d, \<lparr>name = property body ''name'', lastStatus = now\<rparr>)]
         \<and> messages d3 = messages d
           @ [(Suc (next_id d),
               \<lparr>msg_from = property body ''name'', msg_to = JStr ''Todos'',
                msg_text = JStr ''entra na sala...'', msg_type = JStr ''status'',
                msg_time = JStr t, extras = []\<rparr>)])
      \<and> (st3 = 422 \<or> st3 = 409 \<longrightarrow> messages d3 = messages d))"
proof (rule conjI; rule impI)
  assume "post_participants body now t fs d = ((st, b), d')"
  then show "(st = 201 \<longrightarrow>
         participants d' = participants d
           @ [(next_id d, \<lparr>name = property body ''name'', lastStatus = now\<rparr>)]
         \<and> messages d' = messages d
           @ [(Suc (next_id d),
               \<lparr>msg_from = property body ''name'', msg_to = JStr ''Todos'',
                msg_text = JStr ''entra na sala...'', msg_type = JStr ''status'',
                msg_time = JStr t, extras = []\<rparr>)])
      \<and> (st = 422 \<or> st = 409 \<longrightarrow> messages d' = messages d)"
    by (auto simp: post_participants_def Let_def action_defs store_defs joi_defs sendStatus_def
          joi_string_required_ok split: if_splits list.splits)
next
  assume "post_participants_v3 body now t fs d = ((st3, b3), d3)"
  then show "(st3 = 201 \<longrightarrow>
         participants d3 = participants d
           @ [(next_id d, \<lparr>name = property body ''name'', lastStatus = now\<rparr>)]
         \<and> messages d3 = messages d
           @ [(Suc (next_id d),
               \<lparr>msg_from = property body ''name'', msg_to = JStr ''Todos'',
                msg_text = JStr ''entra na sala...'', msg_type = JStr ''status'',
                msg_time = JStr t, extras = []\<rparr>)])
      \<and> (st3 = 422 \<or> st3 = 409 \<longrightarrow> messages d3 = messages d)"
    by (cases "property body ''name''")
       (auto simp: post_participants_v3_def Let_def action_defs store_defs sendStatus_def
          split: if_splits list.splits)
qed

theorem join_appends_status_message_witness:
  "post_participants [(''name'', JStr ''carol'')] 3000 ''10:00:09'' [] room =
     ((201, StatusText),
      room\<lparr>participants := participants room @ [(6, \<lparr>name = JStr ''carol'', lastStatus = 3000\<rparr>)],
           messages := messages room
             @ [(7, \<lparr>msg_from = JStr ''carol'', msg_to = JStr ''Todos'',
                     msg_text = JStr ''entra na sala...'', msg_type = JStr ''status'',
                     msg_time = JStr ''10:00:09'', extras = []\<rparr>)],
           next_id := 8\<rparr>)
   \<and> post_participants_v3 [(''name'', JStr ''carol'')] 3000 ''10:00:09'' [] room =
     ((201, StatusText),
      room\<lparr>participants := participants room @ [(6, \<lparr>name = JStr ''carol'', lastStatus = 3000\<rparr>)],
           messages := messages room
             @ [(7, \<lparr>msg_from = JStr ''carol'', msg_to = JStr ''Todos'',
                     msg_text = JStr ''entra na sala...'', msg_type = JStr ''status'',
                     msg_time = JStr ''10:00:09'', extras = []\<rparr>)],
           next_id := 8\<rparr>)
   \<and> post_participants [(''name'', JStr ''bob'')] 3000 ''10:00:09'' [] room = ((409, StatusText), room)
   \<and> post_participants_v3 [] 3000 ''10:00:09'' [] room = ((422, StatusText), room)"
  using join_appends_status_message [of "[(''name'', JStr ''carol'')]" 3000 "''10:00:09''" "[]" room]
  by (simp add: room_eq post_participants_run post_participants_v3_run eval_simps)

text \<open>
  C4. In variants 1 and 3, for a non-empty string \<open>s\<close> sent as the name, when no
  registered participant has that name and no driver call rejects, the join is answered
  with 201 and the participant \<^verbatim>\<open>{name: s, lastStatus: now}\<close> is appended to the
  directory; a second join with the same name on the resulting store, and on any store
  where the name is registered, is answered with 409 and leaves the store unchanged.
\<close>

theorem join_twice:
  assumes "property body ''name'' = JStr s" and "s \<noteq> []"
    and "JStr s \<notin> set (map (\<lambda>p. name (snd p)) (participants d))"
  shows "(\<exists>d1. post_participants body now t [] d = ((201, StatusText), d1)
          \<and> participants d1 = participants d @ [(next_id d, \<lparr>name = JStr s, lastStatus = now\<rparr>)]
          \<and> post_participants body now' t' [] d1 = ((409, StatusText), d1))
     \<and> (\<exists>d3. post_participants_v3 body now t [] d = ((201, StatusText), d3)
          \<and> participants d3 = participants d @ [(next_id d, \<lparr>name = JStr s, lastStatus = now\<rparr>)]
          \<and> post_participants_v3 body now' t' [] d3 = ((409, StatusText), d3))
     \<and> (JStr s \<in> set (map (\<lambda>p. name (snd p)) (participants e)) \<longrightarrow>
          post_participants body now' t' [] e = ((409, StatusText), e)
          \<and> post_participants_v3 body now' t' [] e = ((409, StatusText), e))"
proof -
  from assms(3) have absent: "find (\<lambda>p. name (snd p) = JStr s) (participants d) = None"
    by (auto simp: find_None_iff image_iff)
  have present: "find (\<lambda>p. name (snd p) = JStr s)
      (participants d @ [(next_id d, \<lparr>name = JStr s, lastStatus = now\<rparr>)]) \<noteq> None"
    by (simp add: find_None_iff)
  from assms(1,2) absent present
  have "\<exists>d1. post_participants body now t [] d = ((201, StatusText), d1)
          \<and> participants d1 = participants d @ [(next_id d, \<lparr>name = JStr s, lastStatus = now\<rparr>)]
          \<and> post_participants body now' t' [] d1 = ((409, StatusText), d1)"
    by (simp add: post_participants_run nameSchema_validate_def)
  moreover from assms(1,2) absent present
  have "\<exists>d3. post_participants_v3 body now t [] d = ((201, StatusText), d3)
          \<and> participants d3 = participants d @ [(next_id d, \<lparr>name = JStr s, lastStatus = now\<rparr>)]
          \<and> post_participants_v3 body now' t' [] d3 = ((409, StatusText), d3)"
    by (simp add: post_participants_v3_run)
  moreover from assms(1,2)
  have "JStr s \<in> set (map (\<lambda>p. name (snd p)) (participants e)) \<longrightarrow>
          post_participants body now' t' [] e = ((409, StatusText), e)
          \<and> post_participants_v3 body now' t' [] e = ((409, StatusText), e)"
    by (simp add: post_participants_run post_participants_v3_run nameSchema_validate_def
          find_None_name)
  ultimately show ?thesis by blast
qed

theorem join_twice_witness:
  "property [(''name'', JStr ''carol'')] ''name'' = JStr ''carol'' \<and> ''carol'' \<noteq> []
   \<and> JStr ''carol'' \<notin> set (map (\<lambda>p. name (snd p)) (participants room))
   \<and> post_participants [(''name'', JStr ''carol'')] 3000 ''10:00:09'' [] room =
        ((201, StatusText),
         \<lparr>participants = participants room @ [(6, \<lparr>name = JStr ''carol'', lastStatus = 3000\<rparr>)],
          messages = messages room
             @ [(7, \<lparr>msg_from = JStr ''carol'', msg_to = JStr ''Todos'',
                     msg_text = JStr ''entra na sala...'', msg_type = JStr ''status'',
                     msg_time = JStr ''10:00:09'', extras = []\<rparr>)],
          next_id = 8\<rparr>)
   \<and> fst (post_participants [(''name'', JStr ''carol'')] 4000 ''10:00:10'' []
          (snd (post_participants [(''name'', JStr ''carol'')] 3000 ''10:00:09'' [] room)))
       = (409, StatusText)
   \<and> fst (post_participants_v3 [(''name'', JStr ''carol'')] 4000 ''10:00:10'' []
          (snd (post_participants_v3 [(''name'', JStr ''carol'')] 3000 ''10:00:09'' [] room)))
       = (409, StatusText)"
proof -
  have h1: "property [(''name'', JStr ''carol'')] ''name'' = JStr ''carol''"
    by (simp add: property_def)
  have h2: "''carol'' \<noteq> []"
    by simp
  have h3: "JStr ''carol'' \<notin> set (map (\<lambda>p. name (snd p)) (participants room))"
    by (simp add: room_eq)
  have run: "post_participants [(''name'', JStr ''carol'')] 3000 ''10:00:09'' [] room =
        ((201, StatusText),
         \<lparr>participants = participants room @ [(6, \<lparr>name = JStr ''carol'', lastStatus = 3000\<rparr>)],
          messages = messages room
             @ [(7, \<lparr>msg_from = JStr ''carol'', msg_to = JStr ''Todos'',
                     msg_text = JStr ''entra na sala...'', msg_type = JStr ''status'',
                     msg_time = JStr ''10:00:09'', extras = []\<rparr>)],
          next_id = 8\<rparr>)"
    by (simp add: room_eq post_participants_run eval_simps)
  from join_twice [OF h1 h2 h3, where now = 3000 and t = "''10:00:09''" and now' = 4000
      and t' = "''10:00:10''" and e = room]
  have "fst (post_participants [(''name'', JStr ''carol'')] 4000 ''10:00:10'' []
          (snd (post_participants [(''name'', JStr ''carol'')] 3000 ''10:00:09'' [] room)))
       = (409, StatusText)
     \<and> fst (post_participants_v3 [(''name'', JStr ''carol'')] 4000 ''10:00:10'' []
          (snd (post_participants_v3 [(''name'', JStr ''carol'')] 3000 ''10:00:09'' [] room)))
       = (409, StatusText)"
    by auto
  with h1 h2 h3 run show ?thesis
    by blast
qed

section \<open>Heartbeat\<close>

text \<open>
  C5. In variants 1 and 3, a heartbeat for a name that no registered participant has is
  answered with 404 when the lookup succeeds, and leaves the store unchanged whatever
  driver calls reject. A heartbeat for a registered name \<open>u\<close>, in a store that satisfies
  the directory invariant (as every reachable store does, \<open>reachable_directory_ok\<close>), is
  answered with 200 when no driver call rejects, and sets the \<open>lastStatus\<close> of the
  participant named \<open>u\<close> to the current time, leaving every other participant as it was.
\<close>

theorem heartbeat:
  "(bson (hdr user) \<notin> set (map (\<lambda>p. name (snd p)) (participants d)) \<longrightarrow>
      fst (fst (post_status user now [] d)) = 404 \<and> snd (post_status user now fs d) = d
      \<and> fst (fst (post_status_v3 user now [] d)) = 404 \<and> snd (post_status_v3 user now fs d) = d)
   \<and> (directory_ok d \<and> user = Some u
       \<and> JStr u \<in> set (map (\<lambda>p. name (snd p)) (participants d)) \<longrightarrow>
      post_status user now [] d =
        ((200, StatusText),
         d\<lparr>participants :=
              map (\<lambda>p. if name (snd p) = JStr u then (fst p, (snd p)\<lparr>lastStatus := now\<rparr>) else p)
                (participants d)\<rparr>)
      \<and> post_status_v3 user now [] d =
        ((200, StatusText),
         d\<lparr>participants :=
              map (\<lambda>p. if name (snd p) = JStr u then (fst p, (snd p)\<lparr>lastStatus := now\<rparr>) else p)
                (participants d)\<rparr>))"
proof (rule conjI; rule impI)
  assume "bson (hdr user) \<notin> set (map (\<lambda>p. name (snd p)) (participants d))"
  then have absent: "find (\<lambda>p. name (snd p) = bson (hdr user)) (participants d) = None"
    by (auto simp: find_None_iff image_iff)
  then show "fst (fst (post_status user now [] d)) = 404 \<and> snd (post_status user now fs d) = d
      \<and> fst (fst (post_status_v3 user now [] d)) = 404 \<and> snd (post_status_v3 user now fs d) = d"
    using post_status_absent_unchanged [OF absent, of now fs]
    by (simp add: post_status_run post_status_v3_run)
next
  assume h: "directory_ok d \<and> user = Some u
       \<and> JStr u \<in> set (map (\<lambda>p. name (snd p)) (participants d))"
  then have names: "distinct (map (\<lambda>p. name (snd p)) (participants d))"
    and truthy: "list_all (\<lambda>p. \<not> falsy (name (snd p))) (participants d)"
    by (simp_all add: directory_ok_def)
  from h have "\<exists>x\<in>set (participants d). JStr u = name (snd x)"
    by (simp add: image_iff)
  then obtain x where x: "x \<in> set (participants d)" "name (snd x) = JStr u"
    by auto
  then have present: "find (\<lambda>p. name (snd p) = JStr u) (participants d) \<noteq> None"
    by (auto simp: find_None_iff)
  from truthy x have nonempty: "u \<noteq> []"
    by (auto simp: list_all_iff)
  from names have upd: "update_first (\<lambda>p. name (snd p) = JStr u)
       (\<lambda>p. (fst p, (snd p)\<lparr>lastStatus := now\<rparr>)) (participants d) =
     map (\<lambda>p. if name (snd p) = JStr u then (fst p, (snd p)\<lparr>lastStatus := now\<rparr>) else p)
       (participants d)"
    by (rule update_first_distinct)
  from h present nonempty upd
  show "post_status user now [] d =
        ((200, StatusText),
         d\<lparr>participants :=
              map (\<lambda>p. if name (snd p) = JStr u then (fst p, (snd p)\<lparr>lastStatus := now\<rparr>) else p)
                (participants d)\<rparr>)
      \<and> post_status_v3 user now [] d =
        ((200, StatusText),
         d\<lparr>participants :=
              map (\<lambda>p. if name (snd p) = JStr u then (fst p, (snd p)\<lparr>lastStatus := now\<rparr>) else p)
                (participants d)\<rparr>)"
    by (simp add: post_status_run post_status_v3_run userSchema_validate_def hdr_def)
qed

theorem heartbeat_witness:
  "bson (hdr (Some ''carol'')) \<notin> set (map (\<lambda>p. name (snd p)) (participants room))
   \<and> post_status (Some ''carol'') 5000 [] room = ((404, StatusText), room)
   \<and> post_status_v3 (Some ''carol'') 5000 [] room = ((404, StatusText), room)
   \<and> directory_ok room
   \<and> JStr ''bob'' \<in> set (map (\<lambda>p. name (snd p)) (participants room))
   \<and> post_status (Some ''bob'') 5000 [] room =
        ((200, StatusText),
         room\<lparr>participants := [(0, \<lparr>name = JStr ''alice'', lastStatus = 1000\<rparr>),
                                 (2, \<lparr>name = JStr ''bob'', lastStatus = 5000\<rparr>)]\<rparr>)
   \<and> post_status_v3 (Some ''bob'') 5000 [] room =
        ((200, StatusText),
         room\<lparr>participants := [(0, \<lparr>name = JStr ''alice'', lastStatus = 1000\<rparr>),
                                 (2, \<lparr>name = JStr ''bob'', lastStatus = 5000\<rparr>)]\<rparr>)"
proof -
  have h1: "bson (hdr (Some ''carol'')) \<notin> set (map (\<lambda>p. name (snd p)) (participants room))"
    by (simp add: room_eq hdr_def)
  have h2: "directory_ok room \<and> Some ''bob'' = Some ''bob''
      \<and> JStr ''bob'' \<in> set (map (\<lambda>p. name (snd p)) (participants room))"
    by (simp add: room_directory_ok) (simp add: room_eq)
  from heartbeat [where d = room and user = "Some ''carol''" and now = 5000 and fs = "[]"
      and u = "''x''"] h1
  have absent: "fst (fst (post_status (Some ''carol'') 5000 [] room)) = 404
      \<and> snd (post_status (Some ''carol'') 5000 [] room) = room"
    by blast
  from heartbeat [where d = room and user = "Some ''bob''" and now = 5000 and fs = "[]"
      and u = "''bob''"] h2
  have "post_status (Some ''bob'') 5000 [] room =
        ((200, StatusText),
         room\<lparr>participants :=
              map (\<lambda>p. if name (snd p) = JStr ''bob'' then (fst p, (snd p)\<lparr>lastStatus := 5000\<rparr>) else p)
                (participants room)\<rparr>)
      \<and> post_status_v3 (Some ''bob'') 5000 [] room =
        ((200, StatusText),
         room\<lparr>participants :=
              map (\<lambda>p. if name (snd p) = JStr ''bob'' then (fst p, (snd p)\<lparr>lastStatus := 5000\<rparr>) else p)
                (participants room)\<rparr>)"
    by blast
  moreover have "map (\<lambda>p. if name (snd p) = JStr ''bob'' then (fst p, (snd p)\<lparr>lastStatus := 5000\<rparr>) else p)
                (participants room) = [(0, \<lparr>name = JStr ''alice'', lastStatus = 1000\<rparr>),
                                 (2, \<lparr>name = JStr ''bob'', lastStatus = 5000\<rparr>)]"
    by (simp add: room_eq)
  moreover have "post_status (Some ''carol'') 5000 [] room = ((404, StatusText), room)"
      "post_status_v3 (Some ''carol'') 5000 [] room = ((404, StatusText), room)"
    by (simp_all add: post_status_run post_status_v3_run room_eq eval_simps)
  ultimately show ?thesis
    using h1 h2 by simp
qed

section \<open>The inactivity sweeper\<close>

text \<open>
  C2, as amended. In a store that satisfies the directory invariant (as every reachable
  store does, \<open>reachable_directory_ok\<close>), when no driver call rejects, one pass of the
  sweeper removes exactly the participants whose \<open>lastStatus\<close> is strictly less than
  \<open>now - 10000\<close> (ten seconds, in milliseconds), leaves every other participant
  registered, and appends for each removed participant, in order, exactly one message
  \<^verbatim>\<open>{from: participant.name, to: "Todos", text: "sai da sala...", type: "status", time}\<close>.
\<close>

theorem sweep_evicts_stale:
  assumes "directory_ok d"
  shows "\<exists>d'. sweeper now t [] d = (False, d')
     \<and> participants d' = filter (\<lambda>p. \<not> lastStatus (snd p) < now - 10000) (participants d)
     \<and> map snd (messages d') = map snd (messages d)
         @ map (\<lambda>p. \<lparr>msg_from = bson (name (snd p)), msg_to = JStr ''Todos'',
                      msg_text = JStr ''sai da sala...'', msg_type = JStr ''status'',
                      msg_time = JStr t, extras = []\<rparr>)
             (filter (\<lambda>p. lastStatus (snd p) < now - 10000) (participants d))"
proof -
  from assms have ids: "distinct (map fst (participants d))"
    by (simp add: directory_ok_def)
  let ?stale = "filter (\<lambda>p. lastStatus (snd p) < now - 10000) (participants d)"
  from evict_ok [of ?stale t d] obtain d' where
    run: "evict ?stale t [] d = Done () [] d'"
    and ps: "participants d' = fold (\<lambda>p. delete_first (\<lambda>q. fst q = fst p)) ?stale (participants d)"
    and ms: "map snd (messages d') = map snd (messages d) @ map (leave_message t) ?stale"
    by blast
  have "sweeper now t [] d = (False, d')"
    by (simp add: sweeper_def try_catch_def bnd_def participants_find_lt_def await_def ret_def run)
  moreover have "participants d' = filter (\<lambda>p. \<not> lastStatus (snd p) < now - 10000) (participants d)"
    unfolding ps fold_delete_first [OF ids]
    by (subst stale_removed [OF ids]) (auto intro: filter_cong)
  moreover have "leave_message t = (\<lambda>p. \<lparr>msg_from = bson (name (snd p)), msg_to = JStr ''Todos'',
                      msg_text = JStr ''sai da sala...'', msg_type = JStr ''status'',
                      msg_time = JStr t, extras = []\<rparr>)"
    by (simp add: leave_message_def fun_eq_iff)
  ultimately show ?thesis
    using ms by auto
qed

theorem sweep_evicts_stale_witness:
  "directory_ok room
   \<and> sweeper 11500 ''10:00:11'' [] room =
       (False,
        \<lparr>participants = [(2, \<lparr>name = JStr ''bob'', lastStatus = 2000\<rparr>)],
         messages = messages room
           @ [(6, \<lparr>msg_from = JStr ''alice'', msg_to = JStr ''Todos'',
                   msg_text = JStr ''sai da sala...'', msg_type = JStr ''status'',
                   msg_time = JStr ''10:00:11'', extras = []\<rparr>)],
         next_id = 7\<rparr>)
   \<and> participants (snd (sweeper 11500 ''10:00:11'' [] room))
       = filter (\<lambda>p. \<not> lastStatus (snd p) < 11500 - 10000) (participants room)"
proof -
  have h: "directory_ok room"
    by (rule room_directory_ok)
  have run: "sweeper 11500 ''10:00:11'' [] room =
       (False,
        \<lparr>participants = [(2, \<lparr>name = JStr ''bob'', lastStatus = 2000\<rparr>)],
         messages = messages room
           @ [(6, \<lparr>msg_from = JStr ''alice'', msg_to = JStr ''Todos'',
                   msg_text = JStr ''sai da sala...'', msg_type = JStr ''status'',
                   msg_time = JStr ''10:00:11'', extras = []\<rparr>)],
         next_id = 7\<rparr>)"
    by (simp add: room_eq sweeper_def action_defs store_defs)
  from sweep_evicts_stale [OF h, of 11500 "''10:00:11''"]
  have "participants (snd (sweeper 11500 ''10:00:11'' [] room))
       = filter (\<lambda>p. \<not> lastStatus (snd p) < 11500 - 10000) (participants room)"
    by auto
  with h run show ?thesis
    by blast
qed

text \<open>
  C2 as stated fails on the text of the message: for \<^verbatim>\<open>dave\<close>, who joined at time 0, the
  pass at 16 seconds stores \<^verbatim>\<open>sai da sala...\<close>, not \<^verbatim>\<open>left the room\<close>.
\<close>

theorem sweep_text_counterexample:
  "sweeper 16000 ''10:00:16'' [] room_dave =
     (False,
      \<lparr>participants = [],
       messages =
         [(1, \<lparr>msg_from = JStr ''dave'', msg_to = JStr ''Todos'', msg_text = JStr ''entra na sala...'',
               msg_type = JStr ''status'', msg_time = JStr ''10:00:00'', extras = []\<rparr>),
          (2, \<lparr>msg_from = JStr ''dave'', msg_to = JStr ''Todos'', msg_text = JStr ''sai da sala...'',
               msg_type = JStr ''status'', msg_time = JStr ''10:00:16'', extras = []\<rparr>)],
       next_id = 3\<rparr>)
   \<and> JStr ''sai da sala...'' \<noteq> JStr ''left the room''"
  by (simp add: room_dave_eq sweeper_def action_defs store_defs)

text \<open>
  C3, as amended. A driver call of the pass that rejects is caught by the one
  \<^verbatim>\<open>try\<close>/\<^verbatim>\<open>catch\<close> around the whole pass: the error is logged and not propagated, and
  the pass ends there. When the first \<open>j\<close> driver calls succeed and the next one rejects
  (the call numbered 0 is the \<^verbatim>\<open>find\<close>, then come a \<^verbatim>\<open>deleteOne\<close> and an
  \<^verbatim>\<open>insertOne\<close> for each stale participant), exactly the first \<open>j div 2\<close> stale
  participants have been removed and exactly the first \<open>(j - 1) div 2\<close> have their message;
  every later stale participant is still registered after the pass.
\<close>

theorem sweep_failure_ends_pass:
  assumes "directory_ok d"
    and "stale = filter (\<lambda>p. lastStatus (snd p) < now - 10000) (participants d)"
    and "j < Suc (2 * length stale)"
  shows "\<exists>d'. sweeper now t (replicate j False @ True # rest) d = (True, d')
     \<and> participants d' = filter (\<lambda>q. q \<notin> set (take (j div 2) stale)) (participants d)
     \<and> map snd (messages d') = map snd (messages d)
         @ map (\<lambda>p. \<lparr>msg_from = bson (name (snd p)), msg_to = JStr ''Todos'',
                      msg_text = JStr ''sai da sala...'', msg_type = JStr ''status'',
                      msg_time = JStr t, extras = []\<rparr>)
             (take ((j - 1) div 2) stale)"
proof (cases j)
  case 0
  then show ?thesis
    by (simp add: sweeper_def try_catch_def bnd_def participants_find_lt_def await_def)
next
  case (Suc j0)
  from assms(1) have ids: "distinct (map fst (participants d))"
    by (simp add: directory_ok_def)
  from Suc assms(3) have "j0 < 2 * length stale" by simp
  from evict_fault [OF this, of t rest d] obtain d' where
    run: "evict stale t (replicate j0 False @ True # rest) d = Thrown d'"
    and ps: "participants d' =
       fold (\<lambda>p. delete_first (\<lambda>q. fst q = fst p)) (take (Suc j0 div 2) stale) (participants d)"
    and ms: "map snd (messages d') = map snd (messages d) @ map (leave_message t) (take (j0 div 2) stale)"
    by blast
  have "sweeper now t (replicate j False @ True # rest) d = (True, d')"
    using run
    by (simp add: Suc sweeper_def try_catch_def bnd_def participants_find_lt_def await_def assms(2))
  moreover have "set (take (Suc j0 div 2) stale) \<subseteq> set (participants d)"
    unfolding assms(2) by (auto dest: in_set_takeD)
  then have "participants d' = filter (\<lambda>q. q \<notin> set (take (j div 2) stale)) (participants d)"
    unfolding ps fold_delete_first [OF ids] Suc
    by (rule stale_removed [OF ids])
  moreover have "leave_message t = (\<lambda>p. \<lparr>msg_from = bson (name (snd p)), msg_to = JStr ''Todos'',
                      msg_text = JStr ''sai da sala...'', msg_type = JStr ''status'',
                      msg_time = JStr t, extras = []\<rparr>)"
    by (simp add: leave_message_def fun_eq_iff)
  ultimately show ?thesis
    using ms by (auto simp: Suc)
qed

theorem sweep_failure_ends_pass_witness:
  "directory_ok room
   \<and> (2::nat) < Suc (2 * length (filter (\<lambda>p. lastStatus (snd p) < 20000 - 10000) (participants room)))
   \<and> sweeper 20000 ''10:00:20'' [False, False, True] room =
       (True, room\<lparr>participants := [(2, \<lparr>name = JStr ''bob'', lastStatus = 2000\<rparr>)]\<rparr>)
   \<and> participants (snd (sweeper 20000 ''10:00:20'' (replicate 2 False @ True # []) room))
       = filter (\<lambda>q. q \<notin> set (take (2 div 2)
                    (filter (\<lambda>p. lastStatus (snd p) < 20000 - 10000) (participants room))))
           (participants room)"
proof -
  have h1: "directory_ok room"
    by (rule room_directory_ok)
  have h3: "(2::nat) < Suc (2 * length (filter (\<lambda>p. lastStatus (snd p) < 20000 - 10000) (participants room)))"
    by (simp add: room_eq)
  have run: "sweeper 20000 ''10:00:20'' [False, False, True] room =
       (True, room\<lparr>participants := [(2, \<lparr>name = JStr ''bob'', lastStatus = 2000\<rparr>)]\<rparr>)"
    by (simp add: room_eq sweeper_def action_defs store_defs)
  from sweep_failure_ends_pass [OF h1 refl h3, of "''10:00:20''" "[]"]
  have "participants (snd (sweeper 20000 ''10:00:20'' (replicate 2 False @ True # []) room))
       = filter (\<lambda>q. q \<notin> set (take (2 div 2)
                    (filter (\<lambda>p. lastStatus (snd p) < 20000 - 10000) (participants room))))
           (participants room)"
    by auto
  with h1 h3 run show ?thesis
    by blast
qed

text \<open>
  C3 as stated fails: with \<^verbatim>\<open>alice\<close> and \<^verbatim>\<open>bob\<close> both stale, when the \<^verbatim>\<open>deleteOne\<close> for
  \<^verbatim>\<open>alice\<close> rejects, the pass logs the error and ends; \<^verbatim>\<open>bob\<close> is not processed and
  the store is as it was.
\<close>

theorem sweep_continue_counterexample:
  "sweeper 20000 ''10:00:20'' [False, True] room = (True, room)
   \<and> filter (\<lambda>p. lastStatus (snd p) < 20000 - 10000) (participants room) =
       [(0, \<lparr>name = JStr ''alice'', lastStatus = 1000\<rparr>),
        (2, \<lparr>name = JStr ''bob'', lastStatus = 2000\<rparr>)]"
  by (simp add: room_eq sweeper_def action_defs store_defs)

section \<open>Posting messages\<close>

lemma messageSchema_validate_ok:
  "messageSchema_validate u to_v text_v type_v = [] \<longleftrightarrow>
     (\<exists>s. u = JStr s \<and> s \<noteq> []) \<and> (\<exists>s. to_v = JStr s \<and> s \<noteq> [])
     \<and> (\<exists>s. text_v = JStr s \<and> s \<noteq> [])
     \<and> (type_v = JStr ''message'' \<or> type_v = JStr ''private_message'')"
  by (simp add: messageSchema_validate_def joi_string_required_ok joi_type_ok)

lemma not_string_iff: "\<not> not_string v \<longleftrightarrow> (\<exists>s. v = JStr s)"
  by (cases v) auto

lemma find_name_mem:
  "find (\<lambda>p. name (snd p) = v) xs \<noteq> None \<Longrightarrow> v \<in> set (map (\<lambda>p. name (snd p)) xs)"
  by (induction xs) (auto split: if_splits)

text \<open>
  C8, as amended. In variants 1 and 3, a Post either leaves the message board as it was
  (and is not answered with 201) or is answered with 201 and appends exactly one message:
  its type is \<^verbatim>\<open>message\<close> or \<^verbatim>\<open>private_message\<close>, its \<open>to\<close> and its \<open>text\<close> are non-empty
  strings taken from the body, and its \<open>from\<close> is the caller identity, the name of a
  participant registered at that time (in variant 1 a non-empty string). Nothing requires
  \<open>to\<close> or \<open>from\<close> to differ from \<^verbatim>\<open>Todos\<close>.
\<close>

theorem post_stores_validated_message:
  "(post_messages user body t fs d = (r, d') \<longrightarrow>
      (fst r \<noteq> 201 \<and> messages d' = messages d)
      \<or> (fst r = 201
          \<and> messages d' = messages d
               @ [(next_id d,
                   \<lparr>msg_from = hdr user, msg_to = property body ''to'',
                    msg_text = property body ''text'', msg_type = property body ''type'',
                    msg_time = JStr t, extras = []\<rparr>)]
          \<and> (\<exists>u. user = Some u \<and> u \<noteq> []
                  \<and> JStr u \<in> set (map (\<lambda>p. name (snd p)) (participants d)))
          \<and> (\<exists>s. property body ''to'' = JStr s \<and> s \<noteq> [])
          \<and> (\<exists>s. property body ''text'' = JStr s \<and> s \<noteq> [])
          \<and> property body ''type'' \<in> {JStr ''message'', JStr ''private_message''}))
   \<and> (post_messages_v3 user body t fs d = (r3, d3) \<longrightarrow>
      (fst r3 \<noteq> 201 \<and> messages d3 = messages d)
      \<or> (fst r3 = 201
          \<and> messages d3 = messages d
               @ [(next_id d,
                   \<lparr>msg_from = bson (hdr user), msg_to = property body ''to'',
                    msg_text = property body ''text'', msg_type = property body ''type'',
                    msg_time = JStr t, extras = []\<rparr>)]
          \<and> bson (hdr user) \<in> set (map (\<lambda>p. name (snd p)) (participants d))
          \<and> (\<exists>s. property body ''to'' = JStr s \<and> s \<noteq> [])
          \<and> (\<exists>s. property body ''text'' = JStr s \<and> s \<noteq> [])
          \<and> property body ''type'' \<in> {JStr ''message'', JStr ''private_message''}))"
proof (rule conjI; rule impI)
  assume run: "post_messages user body t fs d = (r, d')"
  show "(fst r \<noteq> 201 \<and> messages d' = messages d)
      \<or> (fst r = 201
          \<and> messages d' = messages d
               @ [(next_id d,
                   \<lparr>msg_from = hdr user, msg_to = property body ''to'',
                    msg_text = property body ''text'', msg_type = property body ''type'',
                    msg_time = JStr t, extras = []\<rparr>)]
          \<and> (\<exists>u. user = Some u \<and> u \<noteq> []
                  \<and> JStr u \<in> set (map (\<lambda>p. name (snd p)) (participants d)))
          \<and> (\<exists>s. property body ''to'' = JStr s \<and> s \<noteq> [])
          \<and> (\<exists>s. property body ''text'' = JStr s \<and> s \<noteq> [])
          \<and> property body ''type'' \<in> {JStr ''message'', JStr ''private_message''})"
  proof (cases "fst r = 201")
    case False
    with run show ?thesis
      by (auto simp: post_messages_cases split: if_splits)
  next
    case True
    with run have valid: "messageSchema_validate (hdr user) (property body ''to'')
        (property body ''text'') (property body ''type'') = []"
      and found: "find (\<lambda>p. name (snd p) = bson (hdr user)) (participants d) \<noteq> None"
      and d': "d' = d\<lparr>messages := messages d
               @ [(next_id d,
                   \<lparr>msg_from = bson (hdr user), msg_to = bson (property body ''to''),
                    msg_text = bson (property body ''text''),
                    msg_type = bson (property body ''type''),
                    msg_time = JStr t, extras = []\<rparr>)],
             next_id := Suc (next_id d)\<rparr>"
      by (auto simp: post_messages_cases split: if_splits)
    from valid obtain u to_s text_s where
      vals: "hdr user = JStr u" "u \<noteq> []" "property body ''to'' = JStr to_s" "to_s \<noteq> []"
        "property body ''text'' = JStr text_s" "text_s \<noteq> []"
        "property body ''type'' = JStr ''message'' \<or> property body ''type'' = JStr ''private_message''"
      unfolding messageSchema_validate_ok by blast
    from vals(1) have user: "user = Some u"
      by (cases user) (simp_all add: hdr_def)
    from find_name_mem [OF found] vals(1)
    have "JStr u \<in> set (map (\<lambda>p. name (snd p)) (participants d))"
      by simp
    with True d' vals user show ?thesis
      by auto
  qed
next
  assume run: "post_messages_v3 user body t fs d = (r3, d3)"
  show "(fst r3 \<noteq> 201 \<and> messages d3 = messages d)
      \<or> (fst r3 = 201
          \<and> messages d3 = messages d
               @ [(next_id d,
                   \<lparr>msg_from = bson (hdr user), msg_to = property body ''to'',
                    msg_text = property body ''text'', msg_type = property body ''type'',
                    msg_time = JStr t, extras = []\<rparr>)]
          \<and> bson (hdr user) \<in> set (map (\<lambda>p. name (snd p)) (participants d))
          \<and> (\<exists>s. property body ''to'' = JStr s \<and> s \<noteq> [])
          \<and> (\<exists>s. property body ''text'' = JStr s \<and> s \<noteq> [])
          \<and> property body ''type'' \<in> {JStr ''message'', JStr ''private_message''})"
  proof (cases "fst r3 = 201")
    case False
    with run show ?thesis
      by (auto simp: post_messages_v3_cases split: if_splits)
  next
    case True
    with run have to_v: "\<not> not_string (property body ''to'')" "property body ''to'' \<noteq> JStr []"
      and text_v: "\<not> not_string (property body ''text'')" "property body ''text'' \<noteq> JStr []"
      and type_v: "property body ''type'' = JStr ''message''
                   \<or> property body ''type'' = JStr ''private_message''"
      and found: "find (\<lambda>p. name (snd p) = bson (hdr user)) (participants d) \<noteq> None"
      and d3: "d3 = d\<lparr>messages := messages d
               @ [(next_id d,
                   \<lparr>msg_from = bson (hdr user), msg_to = bson (property body ''to''),
                    msg_text = bson (property body ''text''),
                    msg_type = bson (property body ''type''),
                    msg_time = JStr t, extras = []\<rparr>)],
             next_id := Suc (next_id d)\<rparr>"
      by (auto simp: post_messages_v3_cases split: if_splits)
    from to_v text_v obtain to_s text_s where
      vals: "property body ''to'' = JStr to_s" "to_s \<noteq> []"
        "property body ''text'' = JStr text_s" "text_s \<noteq> []"
      unfolding not_string_iff by auto
    from find_name_mem [OF found]
    have "bson (hdr user) \<in> set (map (\<lambda>p. name (snd p)) (participants d))"
      by simp
    with True d3 vals type_v show ?thesis
      by auto
  qed
qed

theorem post_stores_validated_message_witness:
  "post_messages (Some ''bob'') [(''to'', JStr ''alice''), (''text'', JStr ''ola''),
       (''type'', JStr ''private_message'')] ''10:00:05'' [] room =
     ((201, StatusText),
      room\<lparr>messages := messages room
             @ [(6, \<lparr>msg_from = JStr ''bob'', msg_to = JStr ''alice'', msg_text = JStr ''ola'',
                     msg_type = JStr ''private_message'', msg_time = JStr ''10:00:05'',
                     extras = []\<rparr>)],
           next_id := 7\<rparr>)
   \<and> post_messages_v3 (Some ''bob'') [(''to'', JStr ''alice''), (''text'', JStr ''ola''),
       (''type'', JStr ''private_message'')] ''10:00:05'' [] room =
     ((201, StatusText),
      room\<lparr>messages := messages room
             @ [(6, \<lparr>msg_from = JStr ''bob'', msg_to = JStr ''alice'', msg_text = JStr ''ola'',
                     msg_type = JStr ''private_message'', msg_time = JStr ''10:00:05'',
                     extras = []\<rparr>)],
           next_id := 7\<rparr>)
   \<and> JStr ''bob'' \<in> set (map (\<lambda>p. name (snd p)) (participants room))"
proof -
  let ?body = "[(''to'', JStr ''alice''), (''text'', JStr ''ola''), (''type'', JStr ''private_message'')]"
  let ?d = "room\<lparr>messages := messages room
             @ [(6, \<lparr>msg_from = JStr ''bob'', msg_to = JStr ''alice'', msg_text = JStr ''ola'',
                     msg_type = JStr ''private_message'', msg_time = JStr ''10:00:05'',
                     extras = []\<rparr>)],
           next_id := 7\<rparr>"
  have v1: "post_messages (Some ''bob'') ?body ''10:00:05'' [] room = ((201, StatusText), ?d)"
    by (simp add: post_messages_cases room_eq eval_simps)
  have v3: "post_messages_v3 (Some ''bob'') ?body ''10:00:05'' [] room = ((201, StatusText), ?d)"
    by (simp add: post_messages_v3_cases room_eq eval_simps)
  from post_stores_validated_message [of "Some ''bob''" ?body "''10:00:05''" "[]" room
      "(201, StatusText)" ?d "(201, StatusText)" ?d] v1 v3
  have "JStr ''bob'' \<in> set (map (\<lambda>p. name (snd p)) (participants room))"
    by (auto simp: hdr_def)
  with v1 v3 show ?thesis
    by blast
qed

text \<open>
  C8 as stated fails: in the store \<open>room\<close>, reached by two joins and two posts, the
  registered participant \<^verbatim>\<open>alice\<close> posts a \<^verbatim>\<open>private_message\<close> addressed to \<^verbatim>\<open>Todos\<close>; it
  is answered with 201 and stored, in variant 1 and in variant 3.
\<close>

theorem private_to_todos_counterexample:
  "post_messages (Some ''alice'') [(''to'', JStr ''Todos''), (''text'', JStr ''oi''),
       (''type'', JStr ''private_message'')] ''10:00:05'' [] room =
     ((201, StatusText),
      room\<lparr>messages := messages room
             @ [(6, \<lparr>msg_from = JStr ''alice'', msg_to = JStr ''Todos'', msg_text = JStr ''oi'',
                     msg_type = JStr ''private_message'', msg_time = JStr ''10:00:05'',
                     extras = []\<rparr>)],
           next_id := 7\<rparr>)
   \<and> post_messages_v3 (Some ''alice'') [(''to'', JStr ''Todos''), (''text'', JStr ''oi''),
       (''type'', JStr ''private_message'')] ''10:00:05'' [] room =
     ((201, StatusText),
      room\<lparr>messages := messages room
             @ [(6, \<lparr>msg_from = JStr ''alice'', msg_to = JStr ''Todos'', msg_text = JStr ''oi'',
                     msg_type = JStr ''private_message'', msg_time = JStr ''10:00:05'',
                     extras = []\<rparr>)],
           next_id := 7\<rparr>)"
  by (simp add: post_messages_cases post_messages_v3_cases room_eq eval_simps)

section \<open>Editing a message (variant 2)\<close>

text \<open>
  The object that the handler validates always has the key \<^verbatim>\<open>from\<close>, which the schema
  does not name, so the validation never passes and every request is answered with 422.
\<close>

lemma messageSchema2_rejects_from:
  "messageSchema2_validate ((''from'', v) # body) \<noteq> []"
proof -
  have "''from'' \<in> set (filter (\<lambda>k. k \<notin> set [''user'', ''to'', ''text'', ''type''])
          (remdups (map fst ((''from'', v) # body))))"
    by simp
  then have "filter (\<lambda>k. k \<notin> set [''user'', ''to'', ''text'', ''type''])
          (remdups (map fst ((''from'', v) # body))) \<noteq> []"
    by (metis empty_iff empty_set)
  then show ?thesis
    by (simp add: messageSchema2_validate_def)
qed

lemma put_messages_id_always_422:
  "put_messages_id ObjectId user ident body fs d =
     ((422, Details (messageSchema2_validate ((''from'', hdr user) # body))), d)"
  using messageSchema2_rejects_from [of "hdr user" body]
  by (simp add: put_messages_id_def Let_def)

text \<open>
  C6. The claim expects 200 and an updated message when the owner edits an existing message
  with valid \<open>to\<close>, \<open>text\<close> and \<open>type\<close>. In the store \<open>room\<close> the message with identifier 4
  exists and is from \<^verbatim>\<open>alice\<close>, who is registered; the request of \<^verbatim>\<open>alice\<close> to edit
  it, with a valid body, is answered with 422 (\<^verbatim>\<open>"user" is required\<close>, \<^verbatim>\<open>"from" is not allowed\<close>) and the
  store is left as it was.
\<close>

theorem edit_by_owner_answers_422:
  "put_messages_id sample_ObjectId (Some ''alice'') ''4''
     [(''to'', JStr ''bob''), (''text'', JStr ''ola''), (''type'', JStr ''private_message'')] [] room =
     ((422, Details [AnyRequired ''user'', ObjectUnknown ''from'']), room)
   \<and> find (\<lambda>m. fst m = 4) (messages room) =
       Some (4, \<lparr>msg_from = JStr ''alice'', msg_to = JStr ''bob'', msg_text = JStr ''oi'',
             msg_type = JStr ''private_message'', msg_time = JStr ''10:00:02'', extras = []\<rparr>)
   \<and> sample_ObjectId ''4'' = Some 4"
  by (simp add: put_messages_id_always_422 messageSchema2_validate_def property_def hdr_def
        trim_def is_space_def room_eq sample_ObjectId_def)

end
